theory Spec2Isabelle
  imports Complex_Main "HOL-Library.Product_Lexorder"
begin

section \<open>JavaScript numbers\<close>

text \<open>
  The scorer divides and multiplies JavaScript numbers, which are IEEE 754 binary64
  values. Every such value is a rational, so a number is modelled as a \<^typ>\<open>rat\<close> and
  each arithmetic operation rounds its exact result to the nearest binary64 value, ties
  to the even significand. Overflow, subnormals, NaN and infinities are left out: the
  operands below are quotients and products of integers of magnitude below \<open>2^53\<close>,
  which stay in the normal range. Sums of such integers are exact and are written with
  plain addition on \<^typ>\<open>int\<close>.
\<close>

function bit_length :: "int \<Rightarrow> nat" where
  "bit_length n = (if n \<le> 0 then 0 else Suc (bit_length (n div 2)))"
  by pat_completeness auto
termination
  by (relation "measure nat") auto

declare bit_length.simps [simp del]

definition pow2 :: "int \<Rightarrow> rat" where
  "pow2 e = (if 0 \<le> e then 2 ^ nat e else 1 / 2 ^ nat (- e))"

definition round_half_even :: "rat \<Rightarrow> int" where
  "round_half_even x =
     (let n = \<lfloor>x\<rfloor>; d = x - of_int n
      in if d < 1 / 2 then n
         else if 1 / 2 < d then n + 1
         else if even n then n else n + 1)"

text \<open>
  \<open>binary64 x\<close> is the double nearest to \<open>x\<close>: with \<open>2^e \<le> |x| < 2^(e+1)\<close> the
  significand \<open>|x| / 2^(e-52)\<close> lies in \<open>[2^52, 2^53)\<close> and is rounded to an integer.
\<close>

definition binary64 :: "rat \<Rightarrow> rat" where
  "binary64 x =
     (if x = 0 then 0
      else let a = \<bar>x\<bar>;
               (p, q) = quotient_of a;
               e0 = int (bit_length p) - int (bit_length q);
               e = (if pow2 e0 \<le> a then e0 else e0 - 1);
               m = round_half_even (a / pow2 (e - 52))
           in sgn x * of_int m * pow2 (e - 52))"

definition js_divide :: "rat \<Rightarrow> rat \<Rightarrow> rat" where
  "js_divide a b = binary64 (a / b)"

definition js_times :: "rat \<Rightarrow> rat \<Rightarrow> rat" where
  "js_times a b = binary64 (a * b)"

text \<open>\<open>Math.round\<close>: the nearest integer, a tie going towards plus infinity.\<close>

definition Math_round :: "rat \<Rightarrow> int" where
  "Math_round x = \<lfloor>x + 1 / 2\<rfloor>"

section \<open>Trust score (src/lib/calculateScore.ts)\<close>

record ScoreItem =
  check :: bool
  required :: "bool option"
  weight :: "int option"

datatype Grade = GradeA | GradeB | GradeF

record ScoreResult =
  grade :: Grade
  maxRequiredScore :: int
  maxScore :: int
  percentage :: int
  requiredPercentage :: int
  requiredScore :: int
  totalScore :: int

text \<open>\<open>ScoreFlags\<close> (and the structurally equal \<open>ScoreData\<close> of the schema).\<close>

record ScoreFlags =
  hasClaimed :: bool
  hasDeployMoreThanManual :: bool
  hasDeployment :: bool
  hasLicense :: bool
  hasPrompts :: bool
  hasReadme :: bool
  hasResources :: bool
  hasTools :: bool
  hasValidated :: bool

text \<open>
  The argument of \<open>calculateScoreFlags\<close> and \<open>calculateToolScore\<close>: nine optional
  booleans, \<open>None\<close> for a property that is missing or \<open>undefined\<close>. The field names of
  the source that \<open>ScoreFlags\<close> already uses carry the prefix \<open>in_\<close>.
\<close>

record ToolFlagsInput =
  isValidated :: "bool option"
  in_hasTools :: "bool option"
  in_hasDeployment :: "bool option"
  in_hasDeployMoreThanManual :: "bool option"
  in_hasReadme :: "bool option"
  in_hasLicense :: "bool option"
  in_hasPrompts :: "bool option"
  in_hasResources :: "bool option"
  isClaimed :: "bool option"

definition DEFAULT_WEIGHTS :: "(string \<times> int) list" where
  "DEFAULT_WEIGHTS =
     [(''validated'', 20),
      (''tools'', 15),
      (''deployment'', 15),
      (''deployMoreThanManual'', 12),
      (''readme'', 10),
      (''license'', 8),
      (''prompts'', 8),
      (''resources'', 8),
      (''claimed'', 4)]"

text \<open>\<open>Boolean(v)\<close> on a value that is a boolean or \<open>undefined\<close>.\<close>

fun Boolean :: "bool option \<Rightarrow> bool" where
  "Boolean None = False"
| "Boolean (Some b) = b"

definition calculateScoreFlags :: "ToolFlagsInput \<Rightarrow> ScoreFlags" where
  "calculateScoreFlags data =
     \<lparr> hasClaimed = Boolean (isClaimed data),
       hasDeployMoreThanManual = Boolean (in_hasDeployMoreThanManual data),
       hasDeployment = Boolean (in_hasDeployment data),
       hasLicense = Boolean (in_hasLicense data),
       hasPrompts = Boolean (in_hasPrompts data),
       hasReadme = Boolean (in_hasReadme data),
       hasResources = Boolean (in_hasResources data),
       hasTools = Boolean (in_hasTools data),
       hasValidated = Boolean (isValidated data) \<rparr>"

text \<open>An object literal is its entries in insertion order, as \<open>Object.entries\<close> lists them.\<close>

definition createScoreItems :: "ScoreFlags \<Rightarrow> (string \<times> ScoreItem) list" where
  "createScoreItems flags =
     [(''validated'', \<lparr> check = hasValidated flags, required = Some True, weight = None \<rparr>),
      (''tools'', \<lparr> check = hasTools flags, required = Some True, weight = None \<rparr>),
      (''deployment'', \<lparr> check = hasDeployment flags, required = Some True, weight = None \<rparr>),
      (''readme'', \<lparr> check = hasReadme flags, required = Some True, weight = None \<rparr>),
      (''deployMoreThanManual'',
         \<lparr> check = hasDeployMoreThanManual flags, required = None, weight = None \<rparr>),
      (''license'', \<lparr> check = hasLicense flags, required = None, weight = None \<rparr>),
      (''prompts'', \<lparr> check = hasPrompts flags, required = None, weight = None \<rparr>),
      (''resources'', \<lparr> check = hasResources flags, required = None, weight = None \<rparr>),
      (''claimed'', \<lparr> check = hasClaimed flags, required = None, weight = None \<rparr>)]"

text \<open>\<open>weights[key] || 5\<close>: a missing key and a weight of zero both give 5.\<close>

definition weight_of :: "(string \<times> int) list \<Rightarrow> string \<Rightarrow> int" where
  "weight_of weights key =
     (case map_of weights key of
        None \<Rightarrow> 5
      | Some w \<Rightarrow> if w = 0 then 5 else w)"

text \<open>The four counters that the \<open>forEach\<close> callback of \<open>calculateScore\<close> updates.\<close>

record Counters =
  c_totalScore :: int
  c_maxScore :: int
  c_requiredScore :: int
  c_maxRequiredScore :: int

definition score_entry :: "(string \<times> int) list \<Rightarrow> string \<times> ScoreItem \<Rightarrow> Counters \<Rightarrow> Counters" where
  "score_entry weights entry c =
     (let w = weight_of weights (fst entry);
          item = snd entry;
          c1 = c\<lparr> c_maxScore := c_maxScore c + w \<rparr>;
          c2 = (if required item = Some True
                then (let c' = c1\<lparr> c_maxRequiredScore := c_maxRequiredScore c1 + w \<rparr>
                      in if check item then c'\<lparr> c_requiredScore := c_requiredScore c' + w \<rparr>
                         else c')
                else c1)
      in if check item then c2\<lparr> c_totalScore := c_totalScore c2 + w \<rparr> else c2)"

definition raw_percentage :: "int \<Rightarrow> int \<Rightarrow> rat" where
  "raw_percentage score maxi =
     (if maxi > 0 then js_times (js_divide (of_int score) (of_int maxi)) 100 else 0)"

definition grade_of :: "rat \<Rightarrow> rat \<Rightarrow> Grade" where
  "grade_of requiredPct pct =
     (if requiredPct < 100 then GradeF
      else if pct \<ge> 80 then GradeA
      else if pct \<ge> 60 then GradeB
      else GradeF)"

definition calculateScore :: "(string \<times> ScoreItem) list \<Rightarrow> (string \<times> int) list \<Rightarrow> ScoreResult" where
  "calculateScore items weights =
     (let c = fold (score_entry weights) items
                \<lparr> c_totalScore = 0, c_maxScore = 0, c_requiredScore = 0, c_maxRequiredScore = 0 \<rparr>;
          pct = raw_percentage (c_totalScore c) (c_maxScore c);
          requiredPct = raw_percentage (c_requiredScore c) (c_maxRequiredScore c)
      in \<lparr> grade = grade_of requiredPct pct,
           maxRequiredScore = c_maxRequiredScore c,
           maxScore = c_maxScore c,
           percentage = Math_round pct,
           requiredPercentage = Math_round requiredPct,
           requiredScore = c_requiredScore c,
           totalScore = c_totalScore c \<rparr>)"

definition calculateToolScore :: "ToolFlagsInput \<Rightarrow> ScoreResult" where
  "calculateToolScore tool =
     (let flags = calculateScoreFlags tool;
          scoreItems = createScoreItems flags
      in calculateScore scoreItems DEFAULT_WEIGHTS)"

section \<open>Request validation (src/lib/validation.ts)\<close>

datatype ApiError = BadRequest | NotFound | Conflict | InternalError

text \<open>
  \<open>BadRequest\<close>, \<open>NotFound\<close>, \<open>Conflict\<close> and \<open>InternalError\<close> are the responses with
  status 400, 404, 409 and 500. Of the fields of a tool only the name, the description,
  the category and the nine audit flags are kept: the others are stored as given.

  The body of a creation request, before \<open>createToolSchema\<close> has filled the defaults.
\<close>

record CreateToolBody =
  b_name :: string
  b_description :: string
  b_category :: string
  b_isValidated :: "bool option"
  b_isClaimed :: "bool option"
  b_hasTools :: "bool option"
  b_hasReadme :: "bool option"
  b_hasLicense :: "bool option"
  b_hasDeployment :: "bool option"
  b_hasDeployMoreThanManual :: "bool option"
  b_hasPrompts :: "bool option"
  b_hasResources :: "bool option"

record CreateToolInput =
  d_name :: string
  d_description :: string
  d_category :: string
  d_isValidated :: bool
  d_isClaimed :: bool
  d_hasTools :: bool
  d_hasReadme :: bool
  d_hasLicense :: bool
  d_hasDeployment :: bool
  d_hasDeployMoreThanManual :: bool
  d_hasPrompts :: bool
  d_hasResources :: bool

text \<open>\<open>.optional().default(v)\<close>\<close>

fun default_to :: "'a \<Rightarrow> 'a option \<Rightarrow> 'a" where
  "default_to v None = v"
| "default_to v (Some x) = x"

definition string_between :: "nat \<Rightarrow> nat \<Rightarrow> string \<Rightarrow> bool" where
  "string_between lo hi s = (lo \<le> length s \<and> length s \<le> hi)"

definition createToolSchema :: "CreateToolBody \<Rightarrow> ApiError + CreateToolInput" where
  "createToolSchema body =
     (if string_between 1 100 (b_name body) \<and> string_between 1 1000 (b_description body)
         \<and> string_between 1 50 (b_category body)
      then Inr \<lparr> d_name = b_name body,
                 d_description = b_description body,
                 d_category = b_category body,
                 d_isValidated = default_to False (b_isValidated body),
                 d_isClaimed = default_to False (b_isClaimed body),
                 d_hasTools = default_to True (b_hasTools body),
                 d_hasReadme = default_to False (b_hasReadme body),
                 d_hasLicense = default_to False (b_hasLicense body),
                 d_hasDeployment = default_to False (b_hasDeployment body),
                 d_hasDeployMoreThanManual = default_to False (b_hasDeployMoreThanManual body),
                 d_hasPrompts = default_to False (b_hasPrompts body),
                 d_hasResources = default_to False (b_hasResources body) \<rparr>
      else Inl BadRequest)"

text \<open>
  \<open>updateToolSchema = createToolSchema.partial()\<close>: every field may be absent, and an
  absent field stays absent in the parsed value (no default is filled in).
\<close>

record UpdateToolInput =
  u_name :: "string option"
  u_description :: "string option"
  u_category :: "string option"
  u_isValidated :: "bool option"
  u_isClaimed :: "bool option"
  u_hasTools :: "bool option"
  u_hasReadme :: "bool option"
  u_hasLicense :: "bool option"
  u_hasDeployment :: "bool option"
  u_hasDeployMoreThanManual :: "bool option"
  u_hasPrompts :: "bool option"
  u_hasResources :: "bool option"

fun absent_or :: "('a \<Rightarrow> bool) \<Rightarrow> 'a option \<Rightarrow> bool" where
  "absent_or P None = True"
| "absent_or P (Some x) = P x"

definition updateToolSchema :: "UpdateToolInput \<Rightarrow> ApiError + UpdateToolInput" where
  "updateToolSchema body =
     (if absent_or (string_between 1 100) (u_name body)
         \<and> absent_or (string_between 1 1000) (u_description body)
         \<and> absent_or (string_between 1 50) (u_category body)
      then Inr body
      else Inl BadRequest)"

datatype Period = Day | Week | Month

text \<open>
  The query parameters of the trending route. \<open>p_limit\<close> is the number that
  \<open>z.coerce.number()\<close> has read; a parameter that is not an integer is rejected by the
  schema and has no value of this type.
\<close>

record TrendingParams =
  p_period :: "string option"
  p_limit :: "int option"
  p_category :: "string option"

record TrendingQuery =
  period :: Period
  limit :: nat
  category :: "string option"

definition parse_period :: "string \<Rightarrow> Period option" where
  "parse_period s =
     (if s = ''day'' then Some Day
      else if s = ''week'' then Some Week
      else if s = ''month'' then Some Month
      else None)"

definition trendingQuerySchema :: "TrendingParams \<Rightarrow> ApiError + TrendingQuery" where
  "trendingQuerySchema params =
     (let l = default_to 10 (p_limit params)
      in case (case p_period params of None \<Rightarrow> Some Week | Some s \<Rightarrow> parse_period s) of
           None \<Rightarrow> Inl BadRequest
         | Some p \<Rightarrow>
             if 1 \<le> l \<and> l \<le> 50
             then Inr \<lparr> period = p, limit = nat l, category = p_category params \<rparr>
             else Inl BadRequest)"

section \<open>Tables (src/db/schema.ts)\<close>

type_synonym uuid = string

text \<open>
  A row of \<open>tools\<close>. The fields carry the prefix \<open>tool_\<close>, since the score result and
  the flags use the same names. A table is the list of its rows in the order in which a
  query without \<open>ORDER BY\<close> returns them; \<open>ORDER BY\<close> is a stable sort of that list, so
  that quantifying over the list covers every order in which the database may break ties.
\<close>

record Tool =
  tool_id :: uuid
  tool_name :: string
  tool_description :: string
  tool_category :: string
  tool_scoreData :: "ScoreFlags option"
  tool_totalScore :: int
  tool_maxScore :: int
  tool_percentage :: int
  tool_grade :: Grade
  tool_isValidated :: bool
  tool_isClaimed :: bool
  tool_hasTools :: bool
  tool_hasReadme :: bool
  tool_hasLicense :: bool
  tool_hasDeployment :: bool
  tool_hasDeployMoreThanManual :: bool
  tool_hasPrompts :: bool
  tool_hasResources :: bool
  tool_downloadCount :: int

record ToolUsageLog =
  log_toolId :: uuid
  log_action :: string
  log_createdAt :: int

section \<open>Tool routes (src/app/api/tools)\<close>

text \<open>
  The handlers take the table and return the new table with the response body, or the
  error response. A failure of the connection is not modelled; the violations of the
  two unique constraints of \<open>tools\<close> (primary key and name) are, as the exception that the
  handler turns into status 500. Timestamps and the counter of the category are left out.
\<close>

text \<open>
  The object literal of nine booleans that both handlers build and pass to
  \<open>calculateToolScore\<close>, whose parameter takes each of them as optional.
\<close>

record AuditFlags =
  m_isValidated :: bool
  m_hasTools :: bool
  m_hasDeployment :: bool
  m_hasDeployMoreThanManual :: bool
  m_hasReadme :: bool
  m_hasLicense :: bool
  m_hasPrompts :: bool
  m_hasResources :: bool
  m_isClaimed :: bool

definition as_input :: "AuditFlags \<Rightarrow> ToolFlagsInput" where
  "as_input m =
     \<lparr> isValidated = Some (m_isValidated m),
       in_hasTools = Some (m_hasTools m),
       in_hasDeployment = Some (m_hasDeployment m),
       in_hasDeployMoreThanManual = Some (m_hasDeployMoreThanManual m),
       in_hasReadme = Some (m_hasReadme m),
       in_hasLicense = Some (m_hasLicense m),
       in_hasPrompts = Some (m_hasPrompts m),
       in_hasResources = Some (m_hasResources m),
       isClaimed = Some (m_isClaimed m) \<rparr>"

definition flags_of_input :: "CreateToolInput \<Rightarrow> AuditFlags" where
  "flags_of_input toolData =
     \<lparr> m_isValidated = d_isValidated toolData,
       m_hasTools = d_hasTools toolData,
       m_hasDeployment = d_hasDeployment toolData,
       m_hasDeployMoreThanManual = d_hasDeployMoreThanManual toolData,
       m_hasReadme = d_hasReadme toolData,
       m_hasLicense = d_hasLicense toolData,
       m_hasPrompts = d_hasPrompts toolData,
       m_hasResources = d_hasResources toolData,
       m_isClaimed = d_isClaimed toolData \<rparr>"

text \<open>\<open>POST /api/tools\<close>; \<open>new_id\<close> is the key that the database draws for the row.\<close>

definition POST_tools :: "uuid \<Rightarrow> CreateToolBody \<Rightarrow> Tool list \<Rightarrow> ApiError + (Tool list \<times> Tool)" where
  "POST_tools new_id body tools =
     (case createToolSchema body of
        Inl e \<Rightarrow> Inl e
      | Inr toolData \<Rightarrow>
          if filter (\<lambda>t. tool_name t = d_name toolData) tools \<noteq> [] then Inl Conflict
          else
            let scoreResult = calculateToolScore (as_input (flags_of_input toolData));
                newTool =
                  \<lparr> tool_id = new_id,
                    tool_name = d_name toolData,
                    tool_description = d_description toolData,
                    tool_category = d_category toolData,
                    tool_scoreData = Some
                      \<lparr> hasClaimed = (d_isClaimed toolData \<or> False),
                        hasDeployMoreThanManual = (d_hasDeployMoreThanManual toolData \<or> False),
                        hasDeployment = (d_hasDeployment toolData \<or> False),
                        hasLicense = (d_hasLicense toolData \<or> False),
                        hasPrompts = (d_hasPrompts toolData \<or> False),
                        hasReadme = (d_hasReadme toolData \<or> False),
                        hasResources = (d_hasResources toolData \<or> False),
                        hasTools = (d_hasTools toolData \<or> True),
                        hasValidated = (d_isValidated toolData \<or> False) \<rparr>,
                    tool_totalScore = totalScore scoreResult,
                    tool_maxScore = maxScore scoreResult,
                    tool_percentage = percentage scoreResult,
                    tool_grade = grade scoreResult,
                    tool_isValidated = d_isValidated toolData,
                    tool_isClaimed = d_isClaimed toolData,
                    tool_hasTools = d_hasTools toolData,
                    tool_hasReadme = d_hasReadme toolData,
                    tool_hasLicense = d_hasLicense toolData,
                    tool_hasDeployment = d_hasDeployment toolData,
                    tool_hasDeployMoreThanManual = d_hasDeployMoreThanManual toolData,
                    tool_hasPrompts = d_hasPrompts toolData,
                    tool_hasResources = d_hasResources toolData,
                    tool_downloadCount = 0 \<rparr>
            in if new_id \<in> tool_id ` set tools then Inl InternalError
               else Inr (tools @ [newTool], newTool))"

text \<open>\<open>field in updateData\<close>, for the field names that the handler asks about.\<close>

definition field_in :: "string \<Rightarrow> UpdateToolInput \<Rightarrow> bool" where
  "field_in field updateData =
     (if field = ''isValidated'' then u_isValidated updateData \<noteq> None
      else if field = ''hasTools'' then u_hasTools updateData \<noteq> None
      else if field = ''hasDeployment'' then u_hasDeployment updateData \<noteq> None
      else if field = ''hasDeployMoreThanManual'' then u_hasDeployMoreThanManual updateData \<noteq> None
      else if field = ''hasReadme'' then u_hasReadme updateData \<noteq> None
      else if field = ''hasLicense'' then u_hasLicense updateData \<noteq> None
      else if field = ''hasPrompts'' then u_hasPrompts updateData \<noteq> None
      else if field = ''hasResources'' then u_hasResources updateData \<noteq> None
      else if field = ''isClaimed'' then u_isClaimed updateData \<noteq> None
      else if field = ''name'' then u_name updateData \<noteq> None
      else if field = ''description'' then u_description updateData \<noteq> None
      else if field = ''category'' then u_category updateData \<noteq> None
      else False)"

definition scoringFields :: "string list" where
  "scoringFields =
     [''isValidated'', ''hasTools'', ''hasDeployment'', ''hasDeployMoreThanManual'',
      ''hasReadme'', ''hasLicense'', ''hasPrompts'', ''hasResources'', ''isClaimed'']"

definition needsScoreRecalc :: "UpdateToolInput \<Rightarrow> bool" where
  "needsScoreRecalc updateData = list_ex (\<lambda>field. field_in field updateData) scoringFields"

text \<open>\<open>a ?? b\<close>\<close>

fun nullish :: "'a option \<Rightarrow> 'a \<Rightarrow> 'a" where
  "nullish None b = b"
| "nullish (Some a) b = a"

definition merged_flags :: "UpdateToolInput \<Rightarrow> Tool \<Rightarrow> AuditFlags" where
  "merged_flags updateData existing =
     \<lparr> m_isValidated = nullish (u_isValidated updateData) (tool_isValidated existing),
       m_hasTools = nullish (u_hasTools updateData) (tool_hasTools existing),
       m_hasDeployment = nullish (u_hasDeployment updateData) (tool_hasDeployment existing),
       m_hasDeployMoreThanManual =
         nullish (u_hasDeployMoreThanManual updateData) (tool_hasDeployMoreThanManual existing),
       m_hasReadme = nullish (u_hasReadme updateData) (tool_hasReadme existing),
       m_hasLicense = nullish (u_hasLicense updateData) (tool_hasLicense existing),
       m_hasPrompts = nullish (u_hasPrompts updateData) (tool_hasPrompts existing),
       m_hasResources = nullish (u_hasResources updateData) (tool_hasResources existing),
       m_isClaimed = nullish (u_isClaimed updateData) (tool_isClaimed existing) \<rparr>"

text \<open>\<open>.set({...updateData, ...})\<close>: the columns that the payload names.\<close>

definition set_updateData :: "UpdateToolInput \<Rightarrow> Tool \<Rightarrow> Tool" where
  "set_updateData updateData t =
     t\<lparr> tool_name := nullish (u_name updateData) (tool_name t),
        tool_description := nullish (u_description updateData) (tool_description t),
        tool_category := nullish (u_category updateData) (tool_category t),
        tool_isValidated := nullish (u_isValidated updateData) (tool_isValidated t),
        tool_isClaimed := nullish (u_isClaimed updateData) (tool_isClaimed t),
        tool_hasTools := nullish (u_hasTools updateData) (tool_hasTools t),
        tool_hasReadme := nullish (u_hasReadme updateData) (tool_hasReadme t),
        tool_hasLicense := nullish (u_hasLicense updateData) (tool_hasLicense t),
        tool_hasDeployment := nullish (u_hasDeployment updateData) (tool_hasDeployment t),
        tool_hasDeployMoreThanManual :=
          nullish (u_hasDeployMoreThanManual updateData) (tool_hasDeployMoreThanManual t),
        tool_hasPrompts := nullish (u_hasPrompts updateData) (tool_hasPrompts t),
        tool_hasResources := nullish (u_hasResources updateData) (tool_hasResources t) \<rparr>"

text \<open>\<open>...scoreUpdate\<close>, computed from the merged flags of the row read first.\<close>

definition set_scoreUpdate :: "AuditFlags \<Rightarrow> Tool \<Rightarrow> Tool" where
  "set_scoreUpdate merged t =
     (let scoreResult = calculateToolScore (as_input merged)
      in t\<lparr> tool_totalScore := totalScore scoreResult,
            tool_maxScore := maxScore scoreResult,
            tool_percentage := percentage scoreResult,
            tool_grade := grade scoreResult,
            tool_scoreData := Some
              \<lparr> hasClaimed = m_isClaimed merged,
                hasDeployMoreThanManual = m_hasDeployMoreThanManual merged,
                hasDeployment = m_hasDeployment merged,
                hasLicense = m_hasLicense merged,
                hasPrompts = m_hasPrompts merged,
                hasReadme = m_hasReadme merged,
                hasResources = m_hasResources merged,
                hasTools = m_hasTools merged,
                hasValidated = m_isValidated merged \<rparr> \<rparr>)"

text \<open>\<open>PATCH /api/tools/[id]\<close>\<close>

definition PATCH_tool :: "uuid \<Rightarrow> UpdateToolInput \<Rightarrow> Tool list \<Rightarrow> ApiError + (Tool list \<times> Tool)" where
  "PATCH_tool i body tools =
     (case updateToolSchema body of
        Inl e \<Rightarrow> Inl e
      | Inr updateData \<Rightarrow>
          (case find (\<lambda>t. tool_id t = i) tools of
             None \<Rightarrow> Inl NotFound
           | Some existing \<Rightarrow>
               let scoreUpdate =
                     (if needsScoreRecalc updateData
                      then set_scoreUpdate (merged_flags updateData existing)
                      else (\<lambda>t. t));
                   write = (\<lambda>t. scoreUpdate (set_updateData updateData t))
               in if filter (\<lambda>t. tool_id t \<noteq> i \<and> Some (tool_name t) = u_name updateData) tools \<noteq> []
                  then Inl InternalError
                  else Inr (map (\<lambda>t. if tool_id t = i then write t else t) tools, write existing)))"

text \<open>\<open>DELETE /api/tools/[id]\<close>\<close>

definition DELETE_tool :: "uuid \<Rightarrow> Tool list \<Rightarrow> ApiError + (Tool list \<times> uuid)" where
  "DELETE_tool i tools =
     (case find (\<lambda>t. tool_id t = i) tools of
        None \<Rightarrow> Inl NotFound
      | Some existing \<Rightarrow> Inr (filter (\<lambda>t. tool_id t \<noteq> i) tools, i))"

text \<open>The tables that the three handlers can produce from the empty one.\<close>

inductive reachable :: "Tool list \<Rightarrow> bool" where
  initial: "reachable []"
| post: "reachable tools \<Longrightarrow> POST_tools new_id body tools = Inr (tools', t) \<Longrightarrow> reachable tools'"
| patch: "reachable tools \<Longrightarrow> PATCH_tool i body tools = Inr (tools', t) \<Longrightarrow> reachable tools'"
| delete: "reachable tools \<Longrightarrow> DELETE_tool i tools = Inr (tools', j) \<Longrightarrow> reachable tools'"

section \<open>Trending route (src/app/api/trending/route.ts)\<close>

text \<open>
  The values that the route puts into \<open>trendingScore\<close> and \<open>recentUsage\<close>: a number, or
  a string. On the fallback path both are numbers. On the usage path the count comes
  from \<open>count(*)\<close>, a \<open>bigint\<close>, which the driver of the repository (\<open>neon-http\<close>) hands
  over as its decimal string; the annotation \<open>sql<number>\<close> converts nothing, and the
  route, unlike the other routes that count, does not wrap the value in \<open>Number(...)\<close>.
\<close>

datatype JsValue = JsNumber int | JsString string

record TrendingTool = Tool +
  trendingScore :: JsValue
  recentUsage :: JsValue

definition periodDays :: "Period \<Rightarrow> int" where
  "periodDays p = (case p of Day \<Rightarrow> 1 | Week \<Rightarrow> 7 | Month \<Rightarrow> 30)"

definition threshold :: "int \<Rightarrow> Period \<Rightarrow> int" where
  "threshold now p = now - periodDays p * 24 * 60 * 60 * 1000"

text \<open>The decimal digits of a count, and \<open>String(n)\<close> of an integer.\<close>

definition digit_char :: "nat \<Rightarrow> char" where
  "digit_char d = ''0123456789'' ! d"

function decimal :: "nat \<Rightarrow> string" where
  "decimal n = (if n < 10 then [digit_char n] else decimal (n div 10) @ [digit_char (n mod 10)])"
  by pat_completeness auto
termination
  by (relation "measure id") auto

declare decimal.simps [simp del]

definition Number_toString :: "int \<Rightarrow> string" where
  "Number_toString n = (if n < 0 then CHR ''-'' # decimal (nat (- n)) else decimal (nat n))"

text \<open>
  \<open>ToNumber\<close>: of a string it is the integer that the string spells, and \<open>None\<close> stands
  for \<open>NaN\<close>. The strings of the route are the digits of a count followed by
  \<open>String(totalScore)\<close>; white space, fractions, exponents and the other literals that
  \<open>ToNumber\<close> reads occur in none of them and are left out.
\<close>

definition digit_value :: "char \<Rightarrow> nat option" where
  "digit_value c =
     map_of [(CHR ''0'', 0), (CHR ''1'', 1), (CHR ''2'', 2), (CHR ''3'', 3), (CHR ''4'', 4),
             (CHR ''5'', 5), (CHR ''6'', 6), (CHR ''7'', 7), (CHR ''8'', 8), (CHR ''9'', 9)] c"

fun parse_digits :: "nat \<Rightarrow> string \<Rightarrow> nat option" where
  "parse_digits acc [] = Some acc"
| "parse_digits acc (c # cs) =
     (case digit_value c of
        None \<Rightarrow> None
      | Some d \<Rightarrow> parse_digits (10 * acc + d) cs)"

definition StringToNumber :: "string \<Rightarrow> int option" where
  "StringToNumber s =
     (case s of
        [] \<Rightarrow> Some 0
      | c # cs \<Rightarrow>
          if c = CHR ''-'' then (if cs = [] then None else map_option (\<lambda>n. - int n) (parse_digits 0 cs))
          else if c = CHR ''+'' then (if cs = [] then None else map_option int (parse_digits 0 cs))
          else map_option int (parse_digits 0 s))"

fun ToNumber :: "JsValue \<Rightarrow> int option" where
  "ToNumber (JsNumber n) = Some n"
| "ToNumber (JsString s) = StringToNumber s"

text \<open>\<open>a + b\<close>: the sum of two numbers; with a string on either side, the concatenation.\<close>

fun js_plus :: "JsValue \<Rightarrow> JsValue \<Rightarrow> JsValue" where
  "js_plus (JsNumber a) (JsNumber b) = JsNumber (a + b)"
| "js_plus (JsString s) (JsNumber b) = JsString (s @ Number_toString b)"
| "js_plus (JsNumber a) (JsString t) = JsString (Number_toString a @ t)"
| "js_plus (JsString s) (JsString t) = JsString (s @ t)"

text \<open>\<open>x || 0\<close> on a number, and on the result of \<open>Map.get\<close> (the empty string is falsy).\<close>

definition or_zero :: "int \<Rightarrow> int" where
  "or_zero x = (if x = 0 then 0 else x)"

fun get_or_zero :: "string option \<Rightarrow> JsValue" where
  "get_or_zero None = JsNumber 0"
| "get_or_zero (Some s) = (if s = [] then JsNumber 0 else JsString s)"

text \<open>A category that is \<open>undefined\<close> or the empty string is falsy: no filter.\<close>

fun truthy :: "string option \<Rightarrow> bool" where
  "truthy None = False"
| "truthy (Some s) = (s \<noteq> [])"

text \<open>
  \<open>SELECT tool_id, count(*) ... WHERE created_at >= threshold GROUP BY tool_id
  ORDER BY usage_count DESC LIMIT limit * 2\<close>. The database orders the groups by their
  counts; among groups of equal count the order is its own choice, \<open>group_order\<close>: the
  keys listed there come first, in that order. Each count is delivered as a string.
\<close>

definition usage_in_window :: "int \<Rightarrow> ToolUsageLog list \<Rightarrow> uuid list" where
  "usage_in_window th logs = map log_toolId (filter (\<lambda>l. th \<le> log_createdAt l) logs)"

definition group_keys :: "uuid list \<Rightarrow> uuid list \<Rightarrow> uuid list" where
  "group_keys group_order ids =
     filter (\<lambda>i. i \<in> set ids) (remdups group_order)
       @ filter (\<lambda>i. i \<notin> set group_order) (remdups ids)"

definition select_trendingData :: "uuid list \<Rightarrow> int \<Rightarrow> nat \<Rightarrow> ToolUsageLog list \<Rightarrow> (uuid \<times> string) list" where
  "select_trendingData group_order th n logs =
     (let ids = usage_in_window th logs;
          groups = map (\<lambda>i. (i, count_list ids i)) (group_keys group_order ids)
      in map (\<lambda>g. (fst g, decimal (snd g))) (take n (sort_key (\<lambda>g. - int (snd g)) groups)))"

text \<open>\<open>SELECT * FROM tools [WHERE category = c] ORDER BY total_score DESC, download_count DESC LIMIT limit\<close>\<close>

definition select_fallbackTools :: "string option \<Rightarrow> nat \<Rightarrow> Tool list \<Rightarrow> Tool list" where
  "select_fallbackTools cat n tools =
     take n (sort_key (\<lambda>t. (- tool_totalScore t, - tool_downloadCount t))
               (if truthy cat then filter (\<lambda>t. Some (tool_category t) = cat) tools else tools))"

text \<open>
  \<open>.sort((a, b) => b.trendingScore - a.trendingScore)\<close>: the comparator, whose result
  \<open>NaN\<close> counts as 0, and the stable sort that it drives. When the comparator is not
  consistent (some score is \<open>NaN\<close>) the order is left to the implementation; the sort
  below is then one of the orders allowed.
\<close>

definition compare_trending :: "TrendingTool \<Rightarrow> TrendingTool \<Rightarrow> int" where
  "compare_trending a b =
     (case (ToNumber (trendingScore b), ToNumber (trendingScore a)) of
        (Some y, Some x) \<Rightarrow> y - x
      | _ \<Rightarrow> 0)"

fun insert_by :: "('a \<Rightarrow> 'a \<Rightarrow> int) \<Rightarrow> 'a \<Rightarrow> 'a list \<Rightarrow> 'a list" where
  "insert_by cmp x [] = [x]"
| "insert_by cmp x (y # ys) = (if cmp x y \<le> 0 then x # y # ys else y # insert_by cmp x ys)"

definition sort_by :: "('a \<Rightarrow> 'a \<Rightarrow> int) \<Rightarrow> 'a list \<Rightarrow> 'a list" where
  "sort_by cmp xs = foldr (insert_by cmp) xs []"

definition GET_trending :: "uuid list \<Rightarrow> int \<Rightarrow> TrendingParams \<Rightarrow> ToolUsageLog list \<Rightarrow> Tool list \<Rightarrow> ApiError + TrendingTool list" where
  "GET_trending group_order now params logs tools =
     (case trendingQuerySchema params of
        Inl e \<Rightarrow> Inl e
      | Inr q \<Rightarrow>
          let trendingData =
                select_trendingData group_order (threshold now (period q)) (limit q * 2) logs
          in if length trendingData = 0
             then Inr (map (\<lambda>tool. Tool.extend tool
                              \<lparr> trendingScore = JsNumber (or_zero (tool_totalScore tool)),
                                recentUsage = JsNumber 0 \<rparr>)
                         (select_fallbackTools (category q) (limit q) tools))
             else
               let toolIds = map fst trendingData;
                   tools1 = filter (\<lambda>t. tool_id t \<in> set toolIds) tools;
                   tools2 = (if truthy (category q)
                             then filter (\<lambda>t. Some (tool_category t) = category q) tools1
                             else tools1);
                   usageMap = map_of (rev trendingData)
               in Inr (take (limit q)
                         (sort_by compare_trending
                            (map (\<lambda>tool. Tool.extend tool
                                    \<lparr> trendingScore =
                                        js_plus (get_or_zero (usageMap (tool_id tool)))
                                          (JsNumber (or_zero (tool_totalScore tool))),
                                      recentUsage = get_or_zero (usageMap (tool_id tool)) \<rparr>)
                               tools2))))"

section \<open>Vocabulary of the properties\<close>

text \<open>The points that a flag contributes: its weight when it is set.\<close>

definition points :: "bool \<Rightarrow> int \<Rightarrow> int" where
  "points b w = (if b then w else 0)"

datatype QualityFlag =
  Validated | HasTools | HasDeployment | HasDeployMoreThanManual | HasReadme
  | HasLicense | HasPrompts | HasResources | Claimed

fun get_flag :: "QualityFlag \<Rightarrow> ToolFlagsInput \<Rightarrow> bool option" where
  "get_flag Validated tool = isValidated tool"
| "get_flag HasTools tool = in_hasTools tool"
| "get_flag HasDeployment tool = in_hasDeployment tool"
| "get_flag HasDeployMoreThanManual tool = in_hasDeployMoreThanManual tool"
| "get_flag HasReadme tool = in_hasReadme tool"
| "get_flag HasLicense tool = in_hasLicense tool"
| "get_flag HasPrompts tool = in_hasPrompts tool"
| "get_flag HasResources tool = in_hasResources tool"
| "get_flag Claimed tool = isClaimed tool"

fun set_flag :: "QualityFlag \<Rightarrow> bool option \<Rightarrow> ToolFlagsInput \<Rightarrow> ToolFlagsInput" where
  "set_flag Validated v tool = tool\<lparr> isValidated := v \<rparr>"
| "set_flag HasTools v tool = tool\<lparr> in_hasTools := v \<rparr>"
| "set_flag HasDeployment v tool = tool\<lparr> in_hasDeployment := v \<rparr>"
| "set_flag HasDeployMoreThanManual v tool = tool\<lparr> in_hasDeployMoreThanManual := v \<rparr>"
| "set_flag HasReadme v tool = tool\<lparr> in_hasReadme := v \<rparr>"
| "set_flag HasLicense v tool = tool\<lparr> in_hasLicense := v \<rparr>"
| "set_flag HasPrompts v tool = tool\<lparr> in_hasPrompts := v \<rparr>"
| "set_flag HasResources v tool = tool\<lparr> in_hasResources := v \<rparr>"
| "set_flag Claimed v tool = tool\<lparr> isClaimed := v \<rparr>"

definition all_flags :: "QualityFlag list" where
  "all_flags =
     [Validated, HasTools, HasDeployment, HasDeployMoreThanManual, HasReadme,
      HasLicense, HasPrompts, HasResources, Claimed]"

text \<open>The input with every missing flag written out as \<open>false\<close>.\<close>

definition missing_as_false :: "ToolFlagsInput \<Rightarrow> ToolFlagsInput" where
  "missing_as_false tool =
     fold (\<lambda>f t. set_flag f (Some (default_to False (get_flag f t))) t) all_flags tool"

text \<open>The audit flags that a row stores, and the scores that they determine.\<close>

definition stored_flags :: "Tool \<Rightarrow> AuditFlags" where
  "stored_flags t =
     \<lparr> m_isValidated = tool_isValidated t,
       m_hasTools = tool_hasTools t,
       m_hasDeployment = tool_hasDeployment t,
       m_hasDeployMoreThanManual = tool_hasDeployMoreThanManual t,
       m_hasReadme = tool_hasReadme t,
       m_hasLicense = tool_hasLicense t,
       m_hasPrompts = tool_hasPrompts t,
       m_hasResources = tool_hasResources t,
       m_isClaimed = tool_isClaimed t \<rparr>"

definition scores_from :: "AuditFlags \<Rightarrow> Tool \<Rightarrow> bool" where
  "scores_from m t =
     (tool_totalScore t = totalScore (calculateToolScore (as_input m))
      \<and> tool_percentage t = percentage (calculateToolScore (as_input m))
      \<and> tool_grade t = grade (calculateToolScore (as_input m)))"

definition score_consistent :: "Tool \<Rightarrow> bool" where
  "score_consistent t = scores_from (stored_flags t) t"

text \<open>The total and the required score that the nine flags should give.\<close>

definition total_points :: "ScoreFlags \<Rightarrow> int" where
  "total_points flags =
     points (hasValidated flags) 20 + points (hasTools flags) 15 + points (hasDeployment flags) 15 +
     points (hasReadme flags) 10 + points (hasDeployMoreThanManual flags) 12 +
     points (hasLicense flags) 8 + points (hasPrompts flags) 8 + points (hasResources flags) 8 +
     points (hasClaimed flags) 4"

definition required_points :: "ScoreFlags \<Rightarrow> int" where
  "required_points flags =
     points (hasValidated flags) 20 + points (hasTools flags) 15 + points (hasDeployment flags) 15 +
     points (hasReadme flags) 10"

text \<open>Two inputs on which the properties are run.\<close>

definition required_only :: ToolFlagsInput where
  "required_only =
     \<lparr> isValidated = Some True, in_hasTools = Some True, in_hasDeployment = Some True,
       in_hasDeployMoreThanManual = None, in_hasReadme = Some True, in_hasLicense = None,
       in_hasPrompts = Some False, in_hasResources = None, isClaimed = None \<rparr>"

definition all_but_validated :: ToolFlagsInput where
  "all_but_validated =
     \<lparr> isValidated = Some False, in_hasTools = Some True, in_hasDeployment = Some True,
       in_hasDeployMoreThanManual = Some True, in_hasReadme = Some True, in_hasLicense = Some True,
       in_hasPrompts = Some True, in_hasResources = Some True, isClaimed = Some True \<rparr>"

text \<open>What the table keeps: one row for a key, and scores that belong to the flags.\<close>

definition table_invariant :: "Tool list \<Rightarrow> bool" where
  "table_invariant tools = (distinct (map tool_id tools) \<and> list_all score_consistent tools)"

text \<open>The row that a successful \<open>PATCH\<close> writes in place of \<open>t\<close>, and the row that a successful \<open>POST\<close> inserts.\<close>

definition patch_write :: "UpdateToolInput \<Rightarrow> Tool \<Rightarrow> Tool \<Rightarrow> Tool" where
  "patch_write u existing t =
     (if needsScoreRecalc u then set_scoreUpdate (merged_flags u existing) (set_updateData u t)
      else set_updateData u t)"

definition post_row :: "uuid \<Rightarrow> CreateToolInput \<Rightarrow> Tool" where
  "post_row new_id toolData =
     \<lparr> tool_id = new_id,
       tool_name = d_name toolData,
       tool_description = d_description toolData,
       tool_category = d_category toolData,
       tool_scoreData = Some
         \<lparr> hasClaimed = d_isClaimed toolData,
           hasDeployMoreThanManual = d_hasDeployMoreThanManual toolData,
           hasDeployment = d_hasDeployment toolData,
           hasLicense = d_hasLicense toolData,
           hasPrompts = d_hasPrompts toolData,
           hasReadme = d_hasReadme toolData,
           hasResources = d_hasResources toolData,
           hasTools = True,
           hasValidated = d_isValidated toolData \<rparr>,
       tool_totalScore = totalScore (calculateToolScore (as_input (flags_of_input toolData))),
       tool_maxScore = maxScore (calculateToolScore (as_input (flags_of_input toolData))),
       tool_percentage = percentage (calculateToolScore (as_input (flags_of_input toolData))),
       tool_grade = grade (calculateToolScore (as_input (flags_of_input toolData))),
       tool_isValidated = d_isValidated toolData,
       tool_isClaimed = d_isClaimed toolData,
       tool_hasTools = d_hasTools toolData,
       tool_hasReadme = d_hasReadme toolData,
       tool_hasLicense = d_hasLicense toolData,
       tool_hasDeployment = d_hasDeployment toolData,
       tool_hasDeployMoreThanManual = d_hasDeployMoreThanManual toolData,
       tool_hasPrompts = d_hasPrompts toolData,
       tool_hasResources = d_hasResources toolData,
       tool_downloadCount = 0 \<rparr>"

text \<open>A request that creates a tool with \<open>hasTools: false\<close>, the row it stores, and an update of that row.\<close>

definition unlisted_body :: CreateToolBody where
  "unlisted_body =
     \<lparr> b_name = ''price-feed'', b_description = ''Token prices'', b_category = ''defi'',
       b_isValidated = Some True, b_isClaimed = None, b_hasTools = Some False,
       b_hasReadme = Some True, b_hasLicense = None, b_hasDeployment = Some True,
       b_hasDeployMoreThanManual = None, b_hasPrompts = None, b_hasResources = None \<rparr>"

definition unlisted_row :: Tool where
  "unlisted_row =
     \<lparr> tool_id = ''tool-1'', tool_name = ''price-feed'', tool_description = ''Token prices'',
       tool_category = ''defi'',
       tool_scoreData = Some
         \<lparr> hasClaimed = False, hasDeployMoreThanManual = False, hasDeployment = True,
           hasLicense = False, hasPrompts = False, hasReadme = True, hasResources = False,
           hasTools = True, hasValidated = True \<rparr>,
       tool_totalScore = 45, tool_maxScore = 100, tool_percentage = 45, tool_grade = GradeF,
       tool_isValidated = True, tool_isClaimed = False, tool_hasTools = False,
       tool_hasReadme = True, tool_hasLicense = False, tool_hasDeployment = True,
       tool_hasDeployMoreThanManual = False, tool_hasPrompts = False, tool_hasResources = False,
       tool_downloadCount = 0 \<rparr>"

definition tools_patch :: UpdateToolInput where
  "tools_patch =
     \<lparr> u_name = None, u_description = None, u_category = None, u_isValidated = None,
       u_isClaimed = None, u_hasTools = Some True, u_hasReadme = None, u_hasLicense = None,
       u_hasDeployment = None, u_hasDeployMoreThanManual = None, u_hasPrompts = None,
       u_hasResources = None \<rparr>"

definition listed_row :: Tool where
  "listed_row =
     \<lparr> tool_id = ''tool-1'', tool_name = ''price-feed'', tool_description = ''Token prices'',
       tool_category = ''defi'',
       tool_scoreData = Some
         \<lparr> hasClaimed = False, hasDeployMoreThanManual = False, hasDeployment = True,
           hasLicense = False, hasPrompts = False, hasReadme = True, hasResources = False,
           hasTools = True, hasValidated = True \<rparr>,
       tool_totalScore = 60, tool_maxScore = 100, tool_percentage = 60, tool_grade = GradeB,
       tool_isValidated = True, tool_isClaimed = False, tool_hasTools = True,
       tool_hasReadme = True, tool_hasLicense = False, tool_hasDeployment = True,
       tool_hasDeployMoreThanManual = False, tool_hasPrompts = False, tool_hasResources = False,
       tool_downloadCount = 0 \<rparr>"

text \<open>The number of usage events of a tool inside the lookback window.\<close>

definition window_count :: "int \<Rightarrow> Period \<Rightarrow> ToolUsageLog list \<Rightarrow> uuid \<Rightarrow> int" where
  "window_count now p logs i =
     int (length (filter (\<lambda>l. log_toolId l = i \<and> threshold now p \<le> log_createdAt l) logs))"

text \<open>
  The category filter of the trending route, the order of its fallback query, and the
  keys that its usage query fetches.
\<close>

definition in_category :: "string option \<Rightarrow> 'a Tool_scheme \<Rightarrow> bool" where
  "in_category cat t = (if truthy cat then Some (tool_category t) = cat else True)"

definition fallback_before :: "'a Tool_scheme \<Rightarrow> 'b Tool_scheme \<Rightarrow> bool" where
  "fallback_before a b =
     (tool_totalScore a > tool_totalScore b
      \<or> (tool_totalScore a = tool_totalScore b \<and> tool_downloadCount a \<ge> tool_downloadCount b))"


definition usage_groups :: "uuid list \<Rightarrow> int \<Rightarrow> ToolUsageLog list \<Rightarrow> (uuid \<times> nat) list" where
  "usage_groups group_order th logs =
     map (\<lambda>i. (i, count_list (usage_in_window th logs) i))
       (group_keys group_order (usage_in_window th logs))"

text \<open>The groups of the usage query in the order of the database, before the limit.\<close>

definition sorted_groups :: "uuid list \<Rightarrow> int \<Rightarrow> ToolUsageLog list \<Rightarrow> (uuid \<times> nat) list" where
  "sorted_groups group_order th logs = sort_key (\<lambda>g. - int (snd g)) (usage_groups group_order th logs)"

text \<open>The entries that the two paths of the route build from a row.\<close>

definition fallback_entry :: "Tool \<Rightarrow> TrendingTool" where
  "fallback_entry tool =
     Tool.extend tool
       \<lparr> trendingScore = JsNumber (or_zero (tool_totalScore tool)), recentUsage = JsNumber 0 \<rparr>"





text \<open>
  The rows that each path ranks: all rows of the category on the fallback path; on the
  usage path the rows of the category whose key was fetched.
\<close>

definition fallback_candidates :: "TrendingQuery \<Rightarrow> Tool list \<Rightarrow> Tool list" where
  "fallback_candidates q tools = filter (\<lambda>t. in_category (category q) t) tools"





text \<open>The key, the trending score and the recent usage of each tool of a response.\<close>

definition ranking_of :: "ApiError + TrendingTool list \<Rightarrow> ApiError + (uuid \<times> JsValue \<times> JsValue) list" where
  "ranking_of response =
     map_sum id (map (\<lambda>x. (tool_id x, trendingScore x, recentUsage x))) response"

text \<open>Tables, usage logs and queries on which the properties are run.\<close>

definition example_tool :: "uuid \<Rightarrow> string \<Rightarrow> int \<Rightarrow> Tool" where
  "example_tool i cat score =
     \<lparr> tool_id = i, tool_name = i, tool_description = ''example'', tool_category = cat,
       tool_scoreData = None, tool_totalScore = score, tool_maxScore = 100,
       tool_percentage = score, tool_grade = GradeF,
       tool_isValidated = False, tool_isClaimed = False, tool_hasTools = True,
       tool_hasReadme = False, tool_hasLicense = False, tool_hasDeployment = False,
       tool_hasDeployMoreThanManual = False, tool_hasPrompts = False, tool_hasResources = False,
       tool_downloadCount = 0 \<rparr>"

definition view_at :: "int \<Rightarrow> uuid \<Rightarrow> ToolUsageLog" where
  "view_at time i = \<lparr> log_toolId = i, log_action = ''view'', log_createdAt = time \<rparr>"

definition example_now :: int where
  "example_now = 10000000000"

definition stored_scores_table :: "Tool list" where
  "stored_scores_table =
     [example_tool ''low'' ''defi'' 10, example_tool ''high'' ''defi'' 90,
      example_tool ''mid'' ''nft'' 50]"

definition blend_table :: "Tool list" where
  "blend_table = [example_tool ''A'' ''defi'' 10, example_tool ''B'' ''defi'' 50]"

definition blend_logs :: "ToolUsageLog list" where
  "blend_logs =
     [view_at example_now ''A'', view_at example_now ''B'', view_at example_now ''A'',
      view_at example_now ''A'', view_at example_now ''A'', view_at example_now ''A'',
      view_at 0 ''B'']"





definition top2 :: TrendingParams where
  "top2 = \<lparr> p_period = Some ''day'', p_limit = Some 2, p_category = None \<rparr>"


section \<open>Properties of the number model\<close>

lemma bit_length_bounds:
  "0 < n \<Longrightarrow> 2 ^ (bit_length n - 1) \<le> n \<and> n < 2 ^ bit_length n"
proof (induction n rule: bit_length.induct)
  case (1 n)
  show ?case
  proof (cases "n = 1")
    case True
    then show ?thesis by (simp add: bit_length.simps [of 1] bit_length.simps [of 0])
  next
    case False
    with "1.prems" have pos: "0 < n div 2" by simp
    with "1.IH" "1.prems" have ih: "2 ^ (bit_length (n div 2) - 1) \<le> n div 2" "n div 2 < 2 ^ bit_length (n div 2)"
      by simp_all
    from pos have bl: "bit_length (n div 2) > 0"
      by (simp add: bit_length.simps [of "n div 2"])
    have eq: "bit_length n = Suc (bit_length (n div 2))"
      using "1.prems" by (simp add: bit_length.simps [of n])
    from bl have "(2::int) ^ (bit_length n - 1) = 2 * 2 ^ (bit_length (n div 2) - 1)"
      by (cases "bit_length (n div 2)") (simp_all add: eq)
    with ih(1) have lo: "2 ^ (bit_length n - 1) \<le> n" by linarith
    from ih(2) have "n < 2 * 2 ^ bit_length (n div 2)" by linarith
    with lo show ?thesis by (simp add: eq)
  qed
qed

lemma pow2_power_int: "pow2 e = power_int 2 e"
  by (simp add: pow2_def power_int_def power_one_over inverse_eq_divide)

lemma pow2_pos: "0 < pow2 e"
  by (simp add: pow2_def)

lemma pow2_diff: "pow2 (a - b) = pow2 a / pow2 b"
  by (simp add: pow2_power_int power_int_diff)

lemma pow2_nat: "pow2 (int n) = 2 ^ n"
  by (simp add: pow2_def)

lemma round_half_even_error: "\<bar>of_int (round_half_even x) - x\<bar> \<le> 1 / 2"
proof -
  have "of_int \<lfloor>x\<rfloor> \<le> x" "x < of_int \<lfloor>x\<rfloor> + 1" by linarith+
  then show ?thesis
    by (auto simp: round_half_even_def Let_def)
qed

lemma binary64_exponent:
  assumes "0 < a" "quotient_of a = (p, q)"
  shows "pow2 (int (bit_length p) - int (bit_length q) - 1) \<le> a"
proof -
  from assms(2) have q: "0 < q" and a: "a = of_int p / of_int q"
    by (simp_all add: quotient_of_denom_pos quotient_of_div)
  with assms(1) have p: "0 < p"
    by (simp add: zero_less_divide_iff)
  from bit_length_bounds [OF p] have "(2::int) ^ (bit_length p - 1) \<le> p" by simp
  then have "of_int ((2::int) ^ (bit_length p - 1)) \<le> (of_int p :: rat)"
    by (simp only: of_int_le_iff)
  then have lo: "(2::rat) ^ (bit_length p - 1) \<le> of_int p" by simp
  from bit_length_bounds [OF q] have "q < 2 ^ bit_length q" by simp
  then have "(of_int q :: rat) < of_int ((2::int) ^ bit_length q)"
    by (simp only: of_int_less_iff)
  then have hi: "(of_int q :: rat) < 2 ^ bit_length q" by simp
  from p have blp: "0 < bit_length p"
    by (simp add: bit_length.simps [of p])
  then have "int (bit_length p) - int (bit_length q) - 1 = int (bit_length p - 1) - int (bit_length q)"
    by simp
  then have "pow2 (int (bit_length p) - int (bit_length q) - 1) = 2 ^ (bit_length p - 1) / 2 ^ bit_length q"
    by (simp only: pow2_diff pow2_nat)
  also have "\<dots> \<le> of_int p / 2 ^ bit_length q"
    using lo by (simp add: divide_right_mono)
  also have "\<dots> \<le> of_int p / of_int q"
    using hi q p by (simp add: frac_le)
  finally show ?thesis by (simp add: a)
qed

lemma binary64_error: "\<bar>binary64 x - x\<bar> \<le> \<bar>x\<bar> / 2 ^ 53"
proof (cases "x = 0")
  case True
  then show ?thesis by (simp add: binary64_def)
next
  case False
  define a where "a = \<bar>x\<bar>"
  obtain p q where pq: "quotient_of a = (p, q)" by (cases "quotient_of a")
  define e0 where "e0 = int (bit_length p) - int (bit_length q)"
  define e where "e = (if pow2 e0 \<le> a then e0 else e0 - 1)"
  define s where "s = pow2 (e - 52)"
  define m where "m = round_half_even (a / s)"
  from False have apos: "0 < a" by (simp add: a_def)
  have b: "binary64 x = sgn x * of_int m * s"
    using False by (cases "pow2 e0 \<le> a")
      (simp_all add: binary64_def Let_def a_def [symmetric] pq e0_def [symmetric] e_def s_def m_def)
  have spos: "0 < s" by (simp add: s_def pow2_pos)
  have ea: "pow2 e \<le> a"
    using binary64_exponent [OF apos pq] by (auto simp: e_def e0_def)
  have "\<bar>of_int m - a / s\<bar> \<le> 1 / 2"
    unfolding m_def by (rule round_half_even_error)
  then have "\<bar>of_int m - a / s\<bar> * s \<le> 1 / 2 * s"
    using spos by (simp only: mult_le_cancel_right_pos)
  moreover have "\<bar>of_int m - a / s\<bar> * s = \<bar>of_int m * s - a\<bar>"
  proof -
    have "\<bar>of_int m - a / s\<bar> * s = \<bar>of_int m - a / s\<bar> * \<bar>s\<bar>"
      using spos by simp
    also have "\<dots> = \<bar>(of_int m - a / s) * s\<bar>"
      by (simp only: abs_mult)
    also have "(of_int m - a / s) * s = of_int m * s - a"
      using spos by (simp add: left_diff_distrib)
    finally show ?thesis .
  qed
  ultimately have err: "\<bar>of_int m * s - a\<bar> \<le> s / 2" by simp
  have "s = pow2 e / 2 ^ 52"
    using pow2_diff [of e 52] pow2_nat [of 52] by (simp add: s_def)
  with ea have "s / 2 \<le> a / 2 ^ 53"
    by (simp add: field_simps)
  with err have "\<bar>of_int m * s - a\<bar> \<le> a / 2 ^ 53" by linarith
  moreover have "\<bar>binary64 x - x\<bar> = \<bar>of_int m * s - a\<bar>"
  proof -
    have "binary64 x - x = sgn x * of_int m * s - sgn x * a"
      by (simp add: b a_def sgn_mult_abs)
    also have "\<dots> = sgn x * (of_int m * s - a)"
      by (simp add: right_diff_distrib mult.assoc)
    finally have "\<bar>binary64 x - x\<bar> = \<bar>sgn x\<bar> * \<bar>of_int m * s - a\<bar>"
      by (simp only: abs_mult)
    with False show ?thesis by (simp add: abs_sgn_eq)
  qed
  ultimately show ?thesis by (simp add: a_def)
qed

lemma binary64_error_weak: "\<bar>binary64 x - x\<bar> \<le> \<bar>x\<bar> / 1000"
proof -
  have "\<bar>x\<bar> / 2 ^ 53 \<le> \<bar>x\<bar> / 1000"
    by (rule divide_left_mono) simp_all
  with binary64_error [of x] show ?thesis by (rule order_trans)
qed

lemma raw_percentage_error:
  assumes "0 \<le> t" "t \<le> m" "0 < m"
  shows "\<bar>raw_percentage t m - 100 * of_int t / of_int m\<bar> \<le> 1 / 4"
proof -
  define y :: rat where "y = of_int t / of_int m"
  define d where "d = binary64 y"
  define r where "r = binary64 (d * 100)"
  have y0: "0 \<le> y" and y1: "y \<le> 1"
    using assms by (simp_all add: y_def)
  have dy: "\<bar>d - y\<bar> \<le> \<bar>y\<bar> / 1000"
    unfolding d_def by (rule binary64_error_weak)
  have rd: "\<bar>r - d * 100\<bar> \<le> \<bar>d * 100\<bar> / 1000"
    unfolding r_def by (rule binary64_error_weak)
  from y0 y1 dy rd have "\<bar>r - 100 * y\<bar> \<le> 1 / 4"
    by (simp add: abs_le_iff abs_if split: if_splits)
  moreover have "raw_percentage t m = r"
    using assms by (simp add: raw_percentage_def js_times_def js_divide_def r_def d_def y_def)
  ultimately show ?thesis by (simp add: y_def)
qed

lemma raw_percentage_80: "raw_percentage 80 100 = 80"
  by code_simp

lemma raw_percentage_60: "raw_percentage 60 100 = 60"
  by code_simp

lemma raw_percentage_full: "raw_percentage 60 60 = 100"
  by code_simp

lemma percentage_of_100:
  assumes "0 \<le> t" "t \<le> 100"
  shows "Math_round (raw_percentage t 100) = t"
    and "raw_percentage t 100 \<ge> 80 \<longleftrightarrow> t \<ge> 80"
    and "raw_percentage t 100 \<ge> 60 \<longleftrightarrow> t \<ge> 60"
proof -
  have "\<bar>raw_percentage t 100 - of_int t\<bar> \<le> 1 / 4"
    using raw_percentage_error [of t 100] assms by simp
  then have lo: "of_int t - 1 / 4 \<le> raw_percentage t 100"
    and hi: "raw_percentage t 100 \<le> of_int t + 1 / 4"
    by linarith+
  show "Math_round (raw_percentage t 100) = t"
    unfolding Math_round_def using lo hi by (intro floor_unique) simp_all
  show "raw_percentage t 100 \<ge> 80 \<longleftrightarrow> t \<ge> 80"
  proof (cases "t = 80")
    case True
    then show ?thesis by (simp add: raw_percentage_80)
  next
    case False
    then consider "of_int t \<le> (79::rat)" "t \<le> 79" | "(81::rat) \<le> of_int t" "81 \<le> t"
      by (cases "t \<le> 79") (simp_all add: not_le)
    then show ?thesis using lo hi by cases simp_all
  qed
  show "raw_percentage t 100 \<ge> 60 \<longleftrightarrow> t \<ge> 60"
  proof (cases "t = 60")
    case True
    then show ?thesis by (simp add: raw_percentage_60)
  next
    case False
    then consider "of_int t \<le> (59::rat)" "t \<le> 59" | "(61::rat) \<le> of_int t" "61 \<le> t"
      by (cases "t \<le> 59") (simp_all add: not_le)
    then show ?thesis using lo hi by cases simp_all
  qed
qed

lemma percentage_of_60:
  assumes "0 \<le> t" "t \<le> 60"
  shows "raw_percentage t 60 < 100 \<longleftrightarrow> t < 60"
    and "Math_round (raw_percentage t 60) < 100 \<longleftrightarrow> t < 60"
proof -
  have both: "(raw_percentage t 60 < 100 \<longleftrightarrow> t < 60) \<and> (Math_round (raw_percentage t 60) < 100 \<longleftrightarrow> t < 60)"
  proof (cases "t = 60")
    case True
    then show ?thesis by (simp add: raw_percentage_full Math_round_def)
  next
    case False
    with assms have t: "t < 60" by simp
    then have "t \<le> 59" by simp
    then have "(of_int t :: rat) \<le> 59" by simp
    then have "100 * (of_int t :: rat) / 60 \<le> 99" by simp
    moreover have "\<bar>raw_percentage t 60 - 100 * of_int t / 60\<bar> \<le> 1 / 4"
      using raw_percentage_error [of t 60] assms by simp
    ultimately have r: "raw_percentage t 60 + 1 / 2 < 100"
      by linarith
    then have "\<lfloor>raw_percentage t 60 + 1 / 2\<rfloor> < 100"
      by (simp only: floor_less_iff of_int_numeral)
    moreover from r have "raw_percentage t 60 < 100" by simp
    ultimately show ?thesis using t by (simp add: Math_round_def)
  qed
  from both show "raw_percentage t 60 < 100 \<longleftrightarrow> t < 60" by simp
  from both show "Math_round (raw_percentage t 60) < 100 \<longleftrightarrow> t < 60" by simp
qed

section \<open>Properties of the trust score\<close>

lemma weight_of_default:
  "weight_of DEFAULT_WEIGHTS ''validated'' = 20"
  "weight_of DEFAULT_WEIGHTS ''tools'' = 15"
  "weight_of DEFAULT_WEIGHTS ''deployment'' = 15"
  "weight_of DEFAULT_WEIGHTS ''deployMoreThanManual'' = 12"
  "weight_of DEFAULT_WEIGHTS ''readme'' = 10"
  "weight_of DEFAULT_WEIGHTS ''license'' = 8"
  "weight_of DEFAULT_WEIGHTS ''prompts'' = 8"
  "weight_of DEFAULT_WEIGHTS ''resources'' = 8"
  "weight_of DEFAULT_WEIGHTS ''claimed'' = 4"
  by (simp_all add: weight_of_def DEFAULT_WEIGHTS_def)

lemma score_entry_required:
  "score_entry ws (k, \<lparr> check = b, required = Some True, weight = wt \<rparr>) c =
     \<lparr> c_totalScore = c_totalScore c + points b (weight_of ws k),
       c_maxScore = c_maxScore c + weight_of ws k,
       c_requiredScore = c_requiredScore c + points b (weight_of ws k),
       c_maxRequiredScore = c_maxRequiredScore c + weight_of ws k \<rparr>"
  by (simp add: score_entry_def points_def Let_def)

lemma score_entry_optional:
  "score_entry ws (k, \<lparr> check = b, required = None, weight = wt \<rparr>) c =
     \<lparr> c_totalScore = c_totalScore c + points b (weight_of ws k),
       c_maxScore = c_maxScore c + weight_of ws k,
       c_requiredScore = c_requiredScore c,
       c_maxRequiredScore = c_maxRequiredScore c \<rparr>"
  by (simp add: score_entry_def points_def Let_def)

lemma default_counters:
  "fold (score_entry DEFAULT_WEIGHTS) (createScoreItems flags)
     \<lparr> c_totalScore = 0, c_maxScore = 0, c_requiredScore = 0, c_maxRequiredScore = 0 \<rparr> =
   \<lparr> c_totalScore =
       points (hasValidated flags) 20 + points (hasTools flags) 15 + points (hasDeployment flags) 15 +
       points (hasReadme flags) 10 + points (hasDeployMoreThanManual flags) 12 +
       points (hasLicense flags) 8 + points (hasPrompts flags) 8 + points (hasResources flags) 8 +
       points (hasClaimed flags) 4,
     c_maxScore = 100,
     c_requiredScore =
       points (hasValidated flags) 20 + points (hasTools flags) 15 + points (hasDeployment flags) 15 +
       points (hasReadme flags) 10,
     c_maxRequiredScore = 60 \<rparr>"
  by (simp add: createScoreItems_def score_entry_required score_entry_optional weight_of_default)

lemma points_bounds: "0 \<le> w \<Longrightarrow> 0 \<le> points b w \<and> points b w \<le> w"
  by (simp add: points_def)

lemma total_points_bounds: "0 \<le> total_points flags \<and> total_points flags \<le> 100"
  unfolding total_points_def
  using points_bounds [of 20 "hasValidated flags"] points_bounds [of 15 "hasTools flags"]
    points_bounds [of 15 "hasDeployment flags"] points_bounds [of 10 "hasReadme flags"]
    points_bounds [of 12 "hasDeployMoreThanManual flags"] points_bounds [of 8 "hasLicense flags"]
    points_bounds [of 8 "hasPrompts flags"] points_bounds [of 8 "hasResources flags"]
    points_bounds [of 4 "hasClaimed flags"]
  by linarith

lemma required_points_bounds: "0 \<le> required_points flags \<and> required_points flags \<le> 60"
  unfolding required_points_def
  using points_bounds [of 20 "hasValidated flags"] points_bounds [of 15 "hasTools flags"]
    points_bounds [of 15 "hasDeployment flags"] points_bounds [of 10 "hasReadme flags"]
  by linarith

lemma required_points_full:
  "required_points flags < 60 \<longleftrightarrow>
     \<not> (hasValidated flags \<and> hasTools flags \<and> hasDeployment flags \<and> hasReadme flags)"
  by (simp add: required_points_def points_def)

lemma calculateScore_default:
  "calculateScore (createScoreItems flags) DEFAULT_WEIGHTS =
     \<lparr> grade = grade_of (raw_percentage (required_points flags) 60)
                (raw_percentage (total_points flags) 100),
       maxRequiredScore = 60,
       maxScore = 100,
       percentage = Math_round (raw_percentage (total_points flags) 100),
       requiredPercentage = Math_round (raw_percentage (required_points flags) 60),
       requiredScore = required_points flags,
       totalScore = total_points flags \<rparr>"
  by (simp add: calculateScore_def default_counters Let_def total_points_def required_points_def)

lemma calculateScore_default_fields:
  "totalScore (calculateScore (createScoreItems flags) DEFAULT_WEIGHTS) = total_points flags"
  "maxScore (calculateScore (createScoreItems flags) DEFAULT_WEIGHTS) = 100"
  "requiredScore (calculateScore (createScoreItems flags) DEFAULT_WEIGHTS) = required_points flags"
  "maxRequiredScore (calculateScore (createScoreItems flags) DEFAULT_WEIGHTS) = 60"
  "percentage (calculateScore (createScoreItems flags) DEFAULT_WEIGHTS) = total_points flags"
  "requiredPercentage (calculateScore (createScoreItems flags) DEFAULT_WEIGHTS) < 100
     \<longleftrightarrow> required_points flags < 60"
  "grade (calculateScore (createScoreItems flags) DEFAULT_WEIGHTS) =
     (if required_points flags < 60 then GradeF
      else if total_points flags \<ge> 80 then GradeA
      else if total_points flags \<ge> 60 then GradeB
      else GradeF)"
  using total_points_bounds [of flags] required_points_bounds [of flags]
  by (simp_all add: calculateScore_default grade_of_def percentage_of_100 percentage_of_60)

lemma calculateToolScore_fields:
  "totalScore (calculateToolScore tool) = total_points (calculateScoreFlags tool)"
  "maxScore (calculateToolScore tool) = 100"
  "percentage (calculateToolScore tool) = total_points (calculateScoreFlags tool)"
  "requiredPercentage (calculateToolScore tool) < 100
     \<longleftrightarrow> required_points (calculateScoreFlags tool) < 60"
  "grade (calculateToolScore tool) =
     (if required_points (calculateScoreFlags tool) < 60 then GradeF
      else if total_points (calculateScoreFlags tool) \<ge> 80 then GradeA
      else if total_points (calculateScoreFlags tool) \<ge> 60 then GradeB
      else GradeF)"
  by (simp_all add: calculateToolScore_def calculateScore_default_fields)

lemma required_flags_input:
  "required_points (calculateScoreFlags tool) < 60 \<longleftrightarrow>
     \<not> (Boolean (isValidated tool) \<and> Boolean (in_hasTools tool)
        \<and> Boolean (in_hasDeployment tool) \<and> Boolean (in_hasReadme tool))"
  by (simp add: required_points_full calculateScoreFlags_def)

lemma required_only_score:
  "total_points (calculateScoreFlags required_only) = 60"
  "required_points (calculateScoreFlags required_only) = 60"
  by (simp_all add: required_only_def calculateScoreFlags_def total_points_def
      required_points_def points_def)

lemma all_but_validated_score:
  "total_points (calculateScoreFlags all_but_validated) = 80"
  "required_points (calculateScoreFlags all_but_validated) = 40"
  by (simp_all add: all_but_validated_def calculateScoreFlags_def total_points_def
      required_points_def points_def)

lemma points_mono: "0 \<le> w \<Longrightarrow> (b \<longrightarrow> b') \<Longrightarrow> points b w \<le> points b' w"
  by (simp add: points_def)

lemma Boolean_default_to: "Boolean (Some (default_to False v)) = Boolean v"
  by (cases v) simp_all

lemma get_flag_missing_as_false:
  "get_flag f (missing_as_false tool) = Some (Boolean (get_flag f tool))"
proof -
  have "default_to False v = Boolean v" for v
    by (cases v) simp_all
  then show ?thesis
    by (cases f) (simp_all add: missing_as_false_def all_flags_def)
qed

lemma calculateScoreFlags_get_flag:
  "calculateScoreFlags tool =
     \<lparr> hasClaimed = Boolean (get_flag Claimed tool),
       hasDeployMoreThanManual = Boolean (get_flag HasDeployMoreThanManual tool),
       hasDeployment = Boolean (get_flag HasDeployment tool),
       hasLicense = Boolean (get_flag HasLicense tool),
       hasPrompts = Boolean (get_flag HasPrompts tool),
       hasReadme = Boolean (get_flag HasReadme tool),
       hasResources = Boolean (get_flag HasResources tool),
       hasTools = Boolean (get_flag HasTools tool),
       hasValidated = Boolean (get_flag Validated tool) \<rparr>"
  by (simp add: calculateScoreFlags_def)

section \<open>The claims about the trust score\<close>

text \<open>
  C1. For every combination of the nine quality flags, \<open>calculateToolScore\<close> returns grade
  \<open>f\<close> whenever one of the four required flags (validated, hasTools, hasDeployment,
  hasReadme) is not set, and returns grade \<open>a\<close> or \<open>b\<close> only when all four are set. A flag
  is set when \<open>Boolean\<close> of its field holds, so the statement covers every input, the
  512 combinations of booleans among them.
\<close>

theorem grade_required_gate:
  "(\<not> (Boolean (isValidated tool) \<and> Boolean (in_hasTools tool)
        \<and> Boolean (in_hasDeployment tool) \<and> Boolean (in_hasReadme tool))
      \<longrightarrow> grade (calculateToolScore tool) = GradeF)
   \<and> (grade (calculateToolScore tool) \<in> {GradeA, GradeB}
      \<longrightarrow> Boolean (isValidated tool) \<and> Boolean (in_hasTools tool)
          \<and> Boolean (in_hasDeployment tool) \<and> Boolean (in_hasReadme tool))"
proof -
  have gate: "grade (calculateToolScore tool) = GradeF"
    if "\<not> (Boolean (isValidated tool) \<and> Boolean (in_hasTools tool)
        \<and> Boolean (in_hasDeployment tool) \<and> Boolean (in_hasReadme tool))"
    using that required_flags_input [of tool] by (simp add: calculateToolScore_fields)
  show ?thesis
  proof (cases "Boolean (isValidated tool) \<and> Boolean (in_hasTools tool)
        \<and> Boolean (in_hasDeployment tool) \<and> Boolean (in_hasReadme tool)")
    case True
    then show ?thesis by simp
  next
    case False
    with gate have "grade (calculateToolScore tool) = GradeF" by simp
    with False show ?thesis by simp
  qed
qed

theorem grade_required_gate_witness:
  "\<not> Boolean (isValidated all_but_validated)
   \<and> grade (calculateToolScore all_but_validated) = GradeF
   \<and> grade (calculateToolScore required_only) \<in> {GradeA, GradeB}
   \<and> Boolean (isValidated required_only) \<and> Boolean (in_hasTools required_only)
   \<and> Boolean (in_hasDeployment required_only) \<and> Boolean (in_hasReadme required_only)"
proof -
  have a: "\<not> Boolean (isValidated all_but_validated)"
    by (simp add: all_but_validated_def)
  have b: "grade (calculateToolScore required_only) \<in> {GradeA, GradeB}"
    by (simp add: calculateToolScore_fields required_only_score)
  from a b grade_required_gate [of all_but_validated] grade_required_gate [of required_only]
  show ?thesis by blast
qed

text \<open>
  C2. The grade that \<open>calculateScore\<close> returns is decided in this order: \<open>f\<close> when
  \<open>requiredPercentage < 100\<close>, whatever the total percentage; otherwise \<open>a\<close> when
  \<open>percentage >= 80\<close>, \<open>b\<close> when \<open>60 <= percentage < 80\<close>, and \<open>f\<close> when
  \<open>percentage < 60\<close>. The first part is about any items and weights, with the two
  percentages that the function compares (computed from the returned scores, before
  \<open>Math.round\<close>); the second part is about the nine flags of the registry, where the same
  decision holds of the rounded percentages that are returned.
\<close>

theorem grade_decision_order:
  "grade (calculateScore items weights) =
     (let r = calculateScore items weights;
          requiredPct = raw_percentage (requiredScore r) (maxRequiredScore r);
          pct = raw_percentage (totalScore r) (maxScore r)
      in if requiredPct < 100 then GradeF
         else if pct \<ge> 80 then GradeA
         else if 60 \<le> pct \<and> pct < 80 then GradeB
         else GradeF)
   \<and> grade (calculateToolScore tool) =
     (let r = calculateToolScore tool
      in if requiredPercentage r < 100 then GradeF
         else if percentage r \<ge> 80 then GradeA
         else if 60 \<le> percentage r \<and> percentage r < 80 then GradeB
         else GradeF)"
proof
  show "grade (calculateScore items weights) =
     (let r = calculateScore items weights;
          requiredPct = raw_percentage (requiredScore r) (maxRequiredScore r);
          pct = raw_percentage (totalScore r) (maxScore r)
      in if requiredPct < 100 then GradeF
         else if pct \<ge> 80 then GradeA
         else if 60 \<le> pct \<and> pct < 80 then GradeB
         else GradeF)"
    by (simp add: calculateScore_def Let_def grade_of_def)
  show "grade (calculateToolScore tool) =
     (let r = calculateToolScore tool
      in if requiredPercentage r < 100 then GradeF
         else if percentage r \<ge> 80 then GradeA
         else if 60 \<le> percentage r \<and> percentage r < 80 then GradeB
         else GradeF)"
    by (simp add: Let_def calculateToolScore_fields)
qed

theorem grade_decision_order_witness:
  "grade (calculateScore (createScoreItems (calculateScoreFlags required_only)) DEFAULT_WEIGHTS) = GradeB
   \<and> grade (calculateToolScore all_but_validated) = GradeF"
  using grade_decision_order [of "createScoreItems (calculateScoreFlags required_only)"
      DEFAULT_WEIGHTS all_but_validated]
  by (simp add: calculateToolScore_fields calculateScore_default_fields required_only_score
      all_but_validated_score)

text \<open>
  C3. For every combination of the nine flags, the \<open>totalScore\<close> that
  \<open>calculateToolScore\<close> returns is the sum of the fixed weights (validated 20, hasTools 15,
  hasDeployment 15, hasDeployMoreThanManual 12, hasReadme 10, hasLicense 8, hasPrompts 8,
  hasResources 8, claimed 4) of the flags that are set, and \<open>maxScore\<close> is 100 whichever
  flags are set.
\<close>

theorem totalScore_sum_of_weights:
  "totalScore (calculateToolScore tool) =
     points (Boolean (isValidated tool)) 20 + points (Boolean (in_hasTools tool)) 15 +
     points (Boolean (in_hasDeployment tool)) 15 +
     points (Boolean (in_hasDeployMoreThanManual tool)) 12 +
     points (Boolean (in_hasReadme tool)) 10 + points (Boolean (in_hasLicense tool)) 8 +
     points (Boolean (in_hasPrompts tool)) 8 + points (Boolean (in_hasResources tool)) 8 +
     points (Boolean (isClaimed tool)) 4
   \<and> maxScore (calculateToolScore tool) = 100"
  by (simp add: calculateToolScore_fields total_points_def calculateScoreFlags_def)

theorem totalScore_sum_of_weights_witness:
  "totalScore (calculateToolScore all_but_validated) = 80
   \<and> maxScore (calculateToolScore all_but_validated) = 100"
  using totalScore_sum_of_weights [of all_but_validated]
  by (simp add: all_but_validated_def points_def)

text \<open>
  C5. For every combination of the nine flags and every single flag, setting that flag
  from false to true while the other eight stay as they are never decreases the
  \<open>totalScore\<close> or the \<open>percentage\<close> that \<open>calculateToolScore\<close> returns.
\<close>

theorem flag_flip_monotone:
  assumes "\<not> Boolean (get_flag f tool)"
  shows "totalScore (calculateToolScore tool) \<le> totalScore (calculateToolScore (set_flag f (Some True) tool))
    \<and> percentage (calculateToolScore tool) \<le> percentage (calculateToolScore (set_flag f (Some True) tool))"
proof -
  have "total_points (calculateScoreFlags tool)
      \<le> total_points (calculateScoreFlags (set_flag f (Some True) tool))"
    by (cases f) (simp_all add: total_points_def calculateScoreFlags_def points_mono)
  then show ?thesis by (simp add: calculateToolScore_fields)
qed

theorem flag_flip_monotone_witness:
  "\<not> Boolean (get_flag HasLicense required_only)
   \<and> totalScore (calculateToolScore required_only) = 60
   \<and> totalScore (calculateToolScore (set_flag HasLicense (Some True) required_only)) = 68
   \<and> percentage (calculateToolScore required_only)
       \<le> percentage (calculateToolScore (set_flag HasLicense (Some True) required_only))"
proof -
  have a: "\<not> Boolean (get_flag HasLicense required_only)"
    by (simp add: required_only_def)
  have "totalScore (calculateToolScore (set_flag HasLicense (Some True) required_only)) = 68"
    by (simp add: calculateToolScore_fields required_only_def calculateScoreFlags_def
        total_points_def points_def)
  with a flag_flip_monotone [OF a] show ?thesis
    by (simp add: calculateToolScore_fields required_only_score)
qed

text \<open>
  C6. \<open>calculateToolScore\<close> is total over partial inputs: whichever of the nine flags are
  missing or \<open>undefined\<close>, each of them counts as false, that is, the result is the result
  on the input in which the missing flags are written out as \<open>false\<close>. The function has no
  failing branch, so its model has no error value.
\<close>

theorem missing_flags_are_false:
  "calculateToolScore tool = calculateToolScore (missing_as_false tool)
   \<and> (\<forall>f. get_flag f (missing_as_false tool) = Some (Boolean (get_flag f tool)))"
proof -
  have "calculateScoreFlags (missing_as_false tool) = calculateScoreFlags tool"
    by (simp add: calculateScoreFlags_get_flag get_flag_missing_as_false)
  then show ?thesis
    by (simp add: calculateToolScore_def get_flag_missing_as_false)
qed

theorem missing_flags_are_false_witness:
  "calculateToolScore required_only =
     calculateToolScore
       \<lparr> isValidated = Some True, in_hasTools = Some True, in_hasDeployment = Some True,
         in_hasDeployMoreThanManual = Some False, in_hasReadme = Some True,
         in_hasLicense = Some False, in_hasPrompts = Some False, in_hasResources = Some False,
         isClaimed = Some False \<rparr>"
  using missing_flags_are_false [of required_only]
  by (simp add: missing_as_false_def all_flags_def required_only_def)

section \<open>Properties of the tool routes\<close>

lemma stored_flags_set_scoreUpdate: "stored_flags (set_scoreUpdate m t) = stored_flags t"
  by (simp add: set_scoreUpdate_def stored_flags_def Let_def)

lemma stored_flags_set_updateData:
  "stored_flags (set_updateData updateData t) = merged_flags updateData t"
  by (simp add: set_updateData_def stored_flags_def merged_flags_def)

lemma scores_from_set_scoreUpdate: "scores_from m (set_scoreUpdate m t)"
  by (simp add: scores_from_def set_scoreUpdate_def Let_def)

lemma tool_id_set_scoreUpdate: "tool_id (set_scoreUpdate m t) = tool_id t"
  by (simp add: set_scoreUpdate_def Let_def)

lemma tool_id_set_updateData: "tool_id (set_updateData updateData t) = tool_id t"
  by (simp add: set_updateData_def)

lemma needsScoreRecalc_iff:
  "needsScoreRecalc u \<longleftrightarrow>
     u_isValidated u \<noteq> None \<or> u_hasTools u \<noteq> None \<or> u_hasDeployment u \<noteq> None
     \<or> u_hasDeployMoreThanManual u \<noteq> None \<or> u_hasReadme u \<noteq> None \<or> u_hasLicense u \<noteq> None
     \<or> u_hasPrompts u \<noteq> None \<or> u_hasResources u \<noteq> None \<or> u_isClaimed u \<noteq> None"
  by (simp add: needsScoreRecalc_def scoringFields_def field_in_def)

lemma merged_flags_no_flags:
  "\<not> needsScoreRecalc u \<Longrightarrow> merged_flags u t = stored_flags t"
  by (simp add: needsScoreRecalc_iff merged_flags_def stored_flags_def)

lemma score_consistent_set_updateData:
  "\<not> needsScoreRecalc u \<Longrightarrow> score_consistent (set_updateData u t) = score_consistent t"
  by (simp add: score_consistent_def stored_flags_set_updateData merged_flags_no_flags)
    (simp add: scores_from_def set_updateData_def)

lemma PATCH_tool_Inr:
  assumes "PATCH_tool i body tools = Inr (tools', updated)"
  obtains existing where
    "find (\<lambda>t. tool_id t = i) tools = Some existing"
    "tools' = map (\<lambda>t. if tool_id t = i then patch_write body existing t else t) tools"
    "updated = patch_write body existing existing"
proof -
  from assms have v: "updateToolSchema body = Inr body"
    by (auto simp: PATCH_tool_def updateToolSchema_def split: if_splits)
  with assms obtain existing where e: "find (\<lambda>t. tool_id t = i) tools = Some existing"
    by (auto simp: PATCH_tool_def split: option.splits)
  from assms v e
  have "tools' = map (\<lambda>t. if tool_id t = i then patch_write body existing t else t) tools"
    and "updated = patch_write body existing existing"
    by (auto simp: PATCH_tool_def Let_def patch_write_def split: if_splits)
  with e that show thesis by blast
qed

lemma tool_id_patch_write: "tool_id (patch_write u existing t) = tool_id t"
  by (simp add: patch_write_def tool_id_set_scoreUpdate tool_id_set_updateData)

lemma patch_write_existing:
  "needsScoreRecalc u \<Longrightarrow>
     stored_flags (patch_write u existing existing) = merged_flags u existing
     \<and> scores_from (merged_flags u existing) (patch_write u existing existing)"
  by (simp add: patch_write_def stored_flags_set_scoreUpdate stored_flags_set_updateData
      scores_from_set_scoreUpdate)

lemma score_consistent_patch_write:
  assumes "score_consistent existing"
  shows "score_consistent (patch_write u existing existing)"
proof (cases "needsScoreRecalc u")
  case True
  then show ?thesis
    using patch_write_existing [of u existing] by (simp add: score_consistent_def)
next
  case False
  with assms show ?thesis
    by (simp add: patch_write_def score_consistent_set_updateData)
qed

lemma find_distinct_id:
  "distinct (map tool_id tools) \<Longrightarrow> find (\<lambda>t. tool_id t = i) tools = Some existing
     \<Longrightarrow> t \<in> set tools \<Longrightarrow> tool_id t = i \<Longrightarrow> t = existing"
  by (induction tools) (auto split: if_splits simp: find_Some_iff)

lemma find_map_id:
  assumes "\<And>t. tool_id (w t) = tool_id t"
  shows "find (\<lambda>t. tool_id t = i) (map (\<lambda>t. if tool_id t = i then w t else t) tools) =
     map_option w (find (\<lambda>t. tool_id t = i) tools)"
  by (induction tools) (simp_all add: assms)

lemma table_invariant_PATCH:
  assumes "table_invariant tools" "PATCH_tool i body tools = Inr (tools', updated)"
  shows "table_invariant tools'"
proof -
  from assms(2) obtain existing where
    e: "find (\<lambda>t. tool_id t = i) tools = Some existing"
    and t': "tools' = map (\<lambda>t. if tool_id t = i then patch_write body existing t else t) tools"
    by (rule PATCH_tool_Inr)
  from assms(1) have d: "distinct (map tool_id tools)" and c: "\<forall>t \<in> set tools. score_consistent t"
    by (simp_all add: table_invariant_def list_all_iff)
  have "map tool_id tools' = map tool_id tools"
    by (simp add: t' tool_id_patch_write cong: if_cong)
  moreover have "score_consistent t" if "t \<in> set tools'" for t
  proof -
    from that obtain t0 where t0: "t0 \<in> set tools"
      and t: "t = (if tool_id t0 = i then patch_write body existing t0 else t0)"
      by (auto simp: t')
    show ?thesis
    proof (cases "tool_id t0 = i")
      case True
      with d e t0 have "t0 = existing" by (simp add: find_distinct_id)
      with True t c t0 show ?thesis by (simp add: score_consistent_patch_write)
    next
      case False
      with t c t0 show ?thesis by simp
    qed
  qed
  ultimately show ?thesis using d by (simp add: table_invariant_def list_all_iff)
qed

lemma POST_tools_Inr:
  assumes "POST_tools new_id body tools = Inr (tools', t)"
  obtains toolData where
    "createToolSchema body = Inr toolData"
    "new_id \<notin> tool_id ` set tools"
    "t = post_row new_id toolData"
    "tools' = tools @ [t]"
proof -
  from assms obtain toolData where v: "createToolSchema body = Inr toolData"
    by (auto simp: POST_tools_def split: sum.splits)
  with assms have "new_id \<notin> tool_id ` set tools" "t = post_row new_id toolData" "tools' = tools @ [t]"
    by (auto simp: POST_tools_def Let_def post_row_def split: if_splits)
  with v that show thesis by blast
qed

lemma stored_flags_post_row: "stored_flags (post_row new_id toolData) = flags_of_input toolData"
  by (simp add: stored_flags_def post_row_def flags_of_input_def)

lemma score_consistent_post_row: "score_consistent (post_row new_id toolData)"
  by (simp add: score_consistent_def stored_flags_post_row)
    (simp add: scores_from_def post_row_def)

lemma table_invariant_POST:
  assumes "table_invariant tools" "POST_tools new_id body tools = Inr (tools', t)"
  shows "table_invariant tools'"
proof -
  from assms(2) obtain toolData where
    "new_id \<notin> tool_id ` set tools" "t = post_row new_id toolData" "tools' = tools @ [t]"
    by (rule POST_tools_Inr)
  with assms(1) show ?thesis
    by (simp add: table_invariant_def score_consistent_post_row) (simp add: post_row_def)
qed

lemma table_invariant_DELETE:
  assumes "table_invariant tools" "DELETE_tool i tools = Inr (tools', j)"
  shows "table_invariant tools'"
proof -
  from assms(2) have "tools' = filter (\<lambda>t. tool_id t \<noteq> i) tools"
    by (auto simp: DELETE_tool_def split: option.splits)
  with assms(1) show ?thesis
    by (simp add: table_invariant_def distinct_map_filter list_all_iff)
qed

lemma reachable_invariant: "reachable tools \<Longrightarrow> table_invariant tools"
proof (induction rule: reachable.induct)
  case initial
  show ?case by (simp add: table_invariant_def)
next
  case (post tools new_id body tools' t)
  then show ?case by (simp add: table_invariant_POST)
next
  case (patch tools i body tools' t)
  then show ?case by (simp add: table_invariant_PATCH)
next
  case (delete tools i tools' j)
  then show ?case by (simp add: table_invariant_DELETE)
qed

lemma score_of_as_input:
  "totalScore (calculateToolScore (as_input m)) =
     points (m_isValidated m) 20 + points (m_hasTools m) 15 + points (m_hasDeployment m) 15 +
     points (m_hasReadme m) 10 + points (m_hasDeployMoreThanManual m) 12 +
     points (m_hasLicense m) 8 + points (m_hasPrompts m) 8 + points (m_hasResources m) 8 +
     points (m_isClaimed m) 4"
  "required_points (calculateScoreFlags (as_input m)) =
     points (m_isValidated m) 20 + points (m_hasTools m) 15 + points (m_hasDeployment m) 15 +
     points (m_hasReadme m) 10"
  by (simp_all add: calculateToolScore_fields total_points_def required_points_def
      calculateScoreFlags_def as_input_def)

lemma POST_unlisted: "POST_tools ''tool-1'' unlisted_body [] = Inr ([unlisted_row], unlisted_row)"
  by (simp add: POST_tools_def unlisted_body_def createToolSchema_def string_between_def Let_def
      unlisted_row_def calculateToolScore_fields total_points_def required_points_def
      calculateScoreFlags_def as_input_def flags_of_input_def points_def)

lemma PATCH_unlisted:
  "PATCH_tool ''tool-1'' tools_patch [unlisted_row] = Inr ([listed_row], listed_row)"
  by (simp add: PATCH_tool_def updateToolSchema_def tools_patch_def needsScoreRecalc_iff Let_def
      unlisted_row_def listed_row_def set_updateData_def set_scoreUpdate_def merged_flags_def
      calculateToolScore_fields total_points_def required_points_def
      calculateScoreFlags_def as_input_def points_def)

section \<open>The claims about the tool routes\<close>

text \<open>
  C4. For every update (\<open>PATCH\<close>) whose payload contains one of the nine quality flags, the
  row that is written has its \<open>totalScore\<close>, \<open>percentage\<close> and \<open>grade\<close> computed from the
  merged flags (the payload's value where it gives one, the stored value otherwise),
  and those merged flags are the flags it stores. Hence in every table that the handlers
  produce from the empty one the scores of each row are the scores of its stored flags.
\<close>

theorem patch_recomputes_scores:
  assumes "PATCH_tool i body tools = Inr (tools', updated)"
  shows "(needsScoreRecalc body \<longrightarrow>
            (\<exists>existing. find (\<lambda>t. tool_id t = i) tools = Some existing
               \<and> stored_flags updated = merged_flags body existing
               \<and> scores_from (merged_flags body existing) updated
               \<and> find (\<lambda>t. tool_id t = i) tools' = Some updated))
         \<and> (reachable tools \<longrightarrow> reachable tools' \<and> (\<forall>t \<in> set tools'. score_consistent t))"
proof (intro conjI impI)
  assume n: "needsScoreRecalc body"
  from assms obtain existing where
    e: "find (\<lambda>t. tool_id t = i) tools = Some existing"
    and t': "tools' = map (\<lambda>t. if tool_id t = i then patch_write body existing t else t) tools"
    and u: "updated = patch_write body existing existing"
    by (rule PATCH_tool_Inr)
  have "find (\<lambda>t. tool_id t = i) tools' = Some updated"
    unfolding t' u using find_map_id [of "patch_write body existing" i tools]
    by (simp add: tool_id_patch_write e)
  with e n u patch_write_existing [of body existing]
  show "\<exists>existing. find (\<lambda>t. tool_id t = i) tools = Some existing
               \<and> stored_flags updated = merged_flags body existing
               \<and> scores_from (merged_flags body existing) updated
               \<and> find (\<lambda>t. tool_id t = i) tools' = Some updated"
    by simp
next
  assume r: "reachable tools"
  from r assms have r': "reachable tools'" by (rule reachable.patch)
  then show "reachable tools'" .
  from r' have "table_invariant tools'" by (rule reachable_invariant)
  then show "\<forall>t \<in> set tools'. score_consistent t"
    by (simp add: table_invariant_def list_all_iff)
qed

theorem patch_recomputes_scores_witness:
  "reachable [unlisted_row]
   \<and> PATCH_tool ''tool-1'' tools_patch [unlisted_row] = Inr ([listed_row], listed_row)
   \<and> needsScoreRecalc tools_patch
   \<and> scores_from (merged_flags tools_patch unlisted_row) listed_row
   \<and> reachable [listed_row] \<and> score_consistent listed_row"
proof -
  have r: "reachable [unlisted_row]"
    using reachable.initial POST_unlisted by (rule reachable.post)
  have n: "needsScoreRecalc tools_patch"
    by (simp add: needsScoreRecalc_iff tools_patch_def)
  have i: "tool_id unlisted_row = ''tool-1''"
    by (simp add: unlisted_row_def)
  from patch_recomputes_scores [OF PATCH_unlisted] r n PATCH_unlisted
  show ?thesis by (auto simp: i)
qed

text \<open>
  C10. For every creation request that \<open>POST /api/tools\<close> accepts, the stored \<open>scoreData\<close>
  has \<open>hasTools = true\<close> whatever the request says (the expression stored is
  \<open>toolData.hasTools || true\<close>), while the stored flag and the scores follow the request:
  when the request sets \<open>hasTools\<close> to false, the total score leaves its weight out and
  the stored breakdown differs from the flags that the score was computed from.
\<close>

theorem post_scoreData_hasTools:
  assumes "POST_tools new_id body tools = Inr (tools', t)"
  shows "\<exists>sd. tool_scoreData t = Some sd \<and> hasTools sd
           \<and> tool_hasTools t = default_to True (b_hasTools body)
           \<and> score_consistent t
           \<and> (b_hasTools body = Some False
                \<longrightarrow> sd \<noteq> calculateScoreFlags (as_input (stored_flags t))
                   \<and> tool_totalScore t =
                       points (tool_isValidated t) 20 + points (tool_hasDeployment t) 15 +
                       points (tool_hasDeployMoreThanManual t) 12 + points (tool_hasReadme t) 10 +
                       points (tool_hasLicense t) 8 + points (tool_hasPrompts t) 8 +
                       points (tool_hasResources t) 8 + points (tool_isClaimed t) 4)"
proof -
  from assms obtain toolData where
    v: "createToolSchema body = Inr toolData" and t: "t = post_row new_id toolData"
    by (rule POST_tools_Inr)
  from v have h: "d_hasTools toolData = default_to True (b_hasTools body)"
    by (auto simp: createToolSchema_def split: if_splits)
  have sd: "tool_scoreData t = Some
         \<lparr> hasClaimed = d_isClaimed toolData,
           hasDeployMoreThanManual = d_hasDeployMoreThanManual toolData,
           hasDeployment = d_hasDeployment toolData,
           hasLicense = d_hasLicense toolData,
           hasPrompts = d_hasPrompts toolData,
           hasReadme = d_hasReadme toolData,
           hasResources = d_hasResources toolData,
           hasTools = True,
           hasValidated = d_isValidated toolData \<rparr>"
    by (simp add: t post_row_def)
  have ht: "tool_hasTools t = default_to True (b_hasTools body)"
    by (simp add: t post_row_def h)
  have c: "score_consistent t"
    by (simp add: t score_consistent_post_row)
  have "hasTools (calculateScoreFlags (as_input (stored_flags t))) = tool_hasTools t"
    by (simp add: calculateScoreFlags_def as_input_def stored_flags_def)
  moreover have "tool_totalScore t = total_points (calculateScoreFlags (as_input (stored_flags t)))"
    using c by (simp add: score_consistent_def scores_from_def calculateToolScore_fields)
  ultimately show ?thesis
    using sd ht c
    by (auto simp: total_points_def calculateScoreFlags_def as_input_def stored_flags_def points_def)
qed

theorem post_scoreData_hasTools_witness:
  "POST_tools ''tool-1'' unlisted_body [] = Inr ([unlisted_row], unlisted_row)
   \<and> b_hasTools unlisted_body = Some False
   \<and> \<not> tool_hasTools unlisted_row
   \<and> (\<exists>sd. tool_scoreData unlisted_row = Some sd \<and> hasTools sd)
   \<and> tool_totalScore unlisted_row = 45"
  using post_scoreData_hasTools [OF POST_unlisted] POST_unlisted
  by (simp add: unlisted_body_def unlisted_row_def)

section \<open>Properties of the trending route\<close>

lemma extend_fields:
  "tool_id (Tool.extend t m) = tool_id t"
  "tool_category (Tool.extend t m) = tool_category t"
  "tool_totalScore (Tool.extend t m) = tool_totalScore t"
  "tool_downloadCount (Tool.extend t m) = tool_downloadCount t"
  "trendingScore (Tool.extend t \<lparr> trendingScore = a, recentUsage = b \<rparr>) = a"
  "recentUsage (Tool.extend t \<lparr> trendingScore = a, recentUsage = b \<rparr>) = b"
  "Tool.truncate (Tool.extend t m) = t"
  by (simp_all add: Tool.defs)

lemma sorted_wrt_sort_key: "sorted_wrt (\<lambda>a b. f a \<le> f b) (sort_key f xs)"
  using sorted_sort_key [of f xs] by (simp only: sorted_map)

lemma take_sorted_top:
  assumes "sorted_wrt R ys" "t \<in> set ys"
  shows "t \<in> set (take n ys) \<or> (\<forall>x \<in> set (take n ys). R x t)"
proof -
  from assms(1) have "sorted_wrt R (take n ys @ drop n ys)" by simp
  then have "\<forall>x \<in> set (take n ys). \<forall>y \<in> set (drop n ys). R x y"
    unfolding sorted_wrt_append by blast
  moreover from assms(2) have "t \<in> set (take n ys) \<or> t \<in> set (drop n ys)"
    using set_append [of "take n ys" "drop n ys"] by (simp del: set_append)
  ultimately show ?thesis by blast
qed

lemma sort_key_Nil_iff: "sort_key f xs = [] \<longleftrightarrow> xs = []"
  using length_sort [of f xs] by (simp only: length_0_conv [symmetric])


subsection \<open>Digits\<close>







subsection \<open>The sort of the route\<close>




subsection \<open>The usage query\<close>


lemma set_group_keys: "set (group_keys group_order ids) = set ids"
  by (auto simp: group_keys_def)

lemma distinct_group_keys: "distinct (group_keys group_order ids)"
  by (auto simp: group_keys_def)

lemma length_group_keys: "length (group_keys group_order ids) = card (set ids)"
  using distinct_card [OF distinct_group_keys, of group_order ids]
  by (simp add: set_group_keys)

lemma select_trendingData_groups:
  "select_trendingData group_order th n logs =
     map (\<lambda>g. (fst g, decimal (snd g))) (take n (sorted_groups group_order th logs))"
  by (simp add: select_trendingData_def usage_groups_def sorted_groups_def Let_def)









lemma select_trendingData_empty:
  "0 < n \<Longrightarrow> select_trendingData group_order th n logs = []
     \<longleftrightarrow> (\<forall>l \<in> set logs. log_createdAt l < th)"
proof -
  assume n: "0 < n"
  have "select_trendingData group_order th n logs = []
      \<longleftrightarrow> group_keys group_order (usage_in_window th logs) = []"
    using n by (simp add: select_trendingData_groups sorted_groups_def usage_groups_def
        sort_key_Nil_iff)
  also have "\<dots> \<longleftrightarrow> set (usage_in_window th logs) = {}"
    using set_group_keys [of group_order "usage_in_window th logs"]
    by (simp only: set_empty [symmetric])
  also have "\<dots> \<longleftrightarrow> (\<forall>l \<in> set logs. log_createdAt l < th)"
    by (auto simp: usage_in_window_def filter_empty_conv not_le)
  finally show ?thesis .
qed

lemma trendingQuerySchema_limit:
  "trendingQuerySchema params = Inr q \<Longrightarrow> 1 \<le> limit q \<and> limit q \<le> 50"
  by (auto simp: trendingQuerySchema_def Let_def split: option.splits if_splits)

lemma or_zero_id: "or_zero x = x"
  by (simp add: or_zero_def)

lemma category_filter:
  "(if truthy cat then filter (\<lambda>t. Some (tool_category t) = cat) tools else tools)
     = filter (\<lambda>t. in_category cat t) tools"
  by (simp add: in_category_def)

lemma GET_trending_no_usage:
  assumes "trendingQuerySchema params = Inr q"
    and "\<forall>l \<in> set logs. log_createdAt l < threshold now (period q)"
  shows "GET_trending group_order now params logs tools =
     Inr (map fallback_entry
            (take (limit q)
               (sort_key (\<lambda>t. (- tool_totalScore t, - tool_downloadCount t))
                  (fallback_candidates q tools))))"
proof -
  from assms(1) have "0 < limit q * 2"
    using trendingQuerySchema_limit [of params q] by simp
  with assms(2) have "select_trendingData group_order (threshold now (period q)) (limit q * 2) logs = []"
    by (simp add: select_trendingData_empty)
  with assms(1) show ?thesis
    by (simp add: GET_trending_def select_fallbackTools_def category_filter
        fallback_candidates_def fallback_entry_def [abs_def])
qed


lemma fallback_entry_fields:
  "tool_id (fallback_entry t) = tool_id t"
  "tool_category (fallback_entry t) = tool_category t"
  "tool_totalScore (fallback_entry t) = tool_totalScore t"
  "tool_downloadCount (fallback_entry t) = tool_downloadCount t"
  "trendingScore (fallback_entry t) = JsNumber (tool_totalScore t)"
  "recentUsage (fallback_entry t) = JsNumber 0"
  "Tool.truncate (fallback_entry t) = t"
  by (simp_all add: fallback_entry_def extend_fields or_zero_id)


lemma fallback_key_order:
  "((- tool_totalScore a, - tool_downloadCount a) \<le> (- tool_totalScore b, - tool_downloadCount b))
     = fallback_before a b"
  by (auto simp: fallback_before_def)

lemma sorted_fallback:
  "sorted_wrt fallback_before (sort_key (\<lambda>t. (- tool_totalScore t, - tool_downloadCount t)) xs)"
  using sorted_wrt_sort_key [of "\<lambda>t. (- tool_totalScore t, - tool_downloadCount t)" xs]
  by (simp only: fallback_key_order)

lemma fallback_before_entry:
  "fallback_before (fallback_entry a) (fallback_entry b) = fallback_before a b"
  by (simp add: fallback_before_def fallback_entry_fields)

subsection \<open>Which keys are fetched\<close>





lemma top2_valid: "trendingQuerySchema top2 = Inr \<lparr> period = Day, limit = 2, category = None \<rparr>"
  by (simp add: trendingQuerySchema_def top2_def parse_period_def)


lemma example_tool_fields:
  "tool_id (example_tool i cat score) = i"
  "tool_category (example_tool i cat score) = cat"
  "tool_totalScore (example_tool i cat score) = score"
  "tool_downloadCount (example_tool i cat score) = 0"
  by (simp_all add: example_tool_def)

lemma view_at_fields:
  "log_toolId (view_at time i) = i"
  "log_createdAt (view_at time i) = time"
  by (simp_all add: view_at_def)

lemma example_thresholds:
  "threshold example_now Day = 9913600000"
  "threshold example_now Week = 9395200000"
  "9913600000 \<le> example_now"
  "9395200000 \<le> example_now"
  by (simp_all add: threshold_def periodDays_def example_now_def)

lemma decimal_small: "n < 10 \<Longrightarrow> decimal n = [digit_char n]"
  by (simp add: decimal.simps [of n])

lemma decimal_examples:
  "decimal 10 = ''10''" "decimal 50 = ''50''" "decimal 60 = ''60''"
  by code_simp+

lemma ToNumber_examples:
  "StringToNumber ''510'' = Some 510" "StringToNumber ''150'' = Some 150"
  "StringToNumber ''250'' = Some 250" "StringToNumber ''360'' = Some 360"
  by (simp_all add: StringToNumber_def digit_value_def)

lemma fallback_example:
  "ranking_of (GET_trending [] example_now top2 [view_at 0 ''low''] stored_scores_table)
     = Inr [(''high'', JsNumber 90, JsNumber 0), (''mid'', JsNumber 50, JsNumber 0)]"
  by (simp add: GET_trending_def top2_valid example_thresholds select_trendingData_def
      usage_in_window_def group_keys_def view_at_fields select_fallbackTools_def
      stored_scores_table_def example_tool_fields ranking_of_def extend_fields or_zero_def)

lemma blend_trendingData:
  "select_trendingData [] (threshold example_now Day) 4 blend_logs = [(''A'', ''5''), (''B'', ''1'')]"
  by (simp add: example_thresholds select_trendingData_def usage_in_window_def group_keys_def
      view_at_fields blend_logs_def decimal_small digit_char_def decimal_examples)

lemma blend_example:
  "ranking_of (GET_trending [] example_now top2 blend_logs blend_table)
     = Inr [(''A'', JsString ''510'', JsString ''5''), (''B'', JsString ''150'', JsString ''1'')]"
  by (simp add: GET_trending_def top2_valid blend_trendingData blend_table_def
      example_tool_fields ranking_of_def extend_fields or_zero_def Let_def sort_by_def
      compare_trending_def Number_toString_def decimal_small digit_char_def decimal_examples ToNumber_examples)





section \<open>The claims about the trending route\<close>

text \<open>
  C7. For every trending query for which no usage event of the whole catalog falls inside
  the lookback window, the route returns the top \<open>limit\<close> tools in the order of stored
  \<open>totalScore\<close> descending, then \<open>downloadCount\<close> descending, filtered by the category
  when one is given, with \<open>recentUsage = 0\<close> and \<open>trendingScore\<close> equal to the stored
  \<open>totalScore\<close> for every returned tool, and this path never returns an error. A
  category is given when the parameter is a non-empty string, which is what the route tests.
\<close>

theorem trending_fallback:
  assumes "trendingQuerySchema params = Inr q"
    and "\<forall>l \<in> set logs. log_createdAt l < threshold now (period q)"
  shows "\<exists>res. GET_trending group_order now params logs tools = Inr res
     \<and> map Tool.truncate res =
         take (limit q) (sort_key (\<lambda>t. (- tool_totalScore t, - tool_downloadCount t))
                           (fallback_candidates q tools))
     \<and> length res = min (limit q) (length (fallback_candidates q tools))
     \<and> sorted_wrt fallback_before res
     \<and> (\<forall>x \<in> set res. recentUsage x = JsNumber 0 \<and> trendingScore x = JsNumber (tool_totalScore x)
            \<and> in_category (category q) x)
     \<and> (\<forall>t \<in> set (fallback_candidates q tools).
            t \<in> Tool.truncate ` set res \<or> (\<forall>x \<in> set res. fallback_before x t))"
proof -
  define sorted_tools where
    "sorted_tools = sort_key (\<lambda>t. (- tool_totalScore t, - tool_downloadCount t))
                      (fallback_candidates q tools)"
  define res where "res = map fallback_entry (take (limit q) sorted_tools)"
  have get: "GET_trending group_order now params logs tools = Inr res"
    using assms by (simp add: GET_trending_no_usage res_def sorted_tools_def)
  have tr: "map Tool.truncate res = take (limit q) sorted_tools"
    by (simp add: res_def comp_def fallback_entry_fields)
  have len: "length res = min (limit q) (length (fallback_candidates q tools))"
    by (simp add: res_def sorted_tools_def)
  have srt: "sorted_wrt fallback_before (take (limit q) sorted_tools)"
    unfolding sorted_tools_def by (intro sorted_wrt_take sorted_fallback)
  then have sorted_res: "sorted_wrt fallback_before res"
    by (simp add: res_def sorted_wrt_map fallback_before_entry)
  have fields: "\<forall>x \<in> set res. recentUsage x = JsNumber 0 \<and> trendingScore x = JsNumber (tool_totalScore x)
            \<and> in_category (category q) x"
  proof
    fix x
    assume that: "x \<in> set res"
    from that obtain t where t: "t \<in> set (take (limit q) sorted_tools)" and x: "x = fallback_entry t"
      by (auto simp: res_def)
    from t have "t \<in> set sorted_tools" by (rule in_set_takeD)
    then have "in_category (category q) t"
      by (simp add: sorted_tools_def fallback_candidates_def)
    then show "recentUsage x = JsNumber 0 \<and> trendingScore x = JsNumber (tool_totalScore x) \<and> in_category (category q) x"
      by (simp add: x fallback_entry_fields in_category_def)
  qed
  have top: "\<forall>t \<in> set (fallback_candidates q tools).
            t \<in> Tool.truncate ` set res \<or> (\<forall>x \<in> set res. fallback_before x t)"
  proof
    fix t
    assume that: "t \<in> set (fallback_candidates q tools)"
    from that have "t \<in> set sorted_tools" by (simp add: sorted_tools_def)
    with sorted_fallback [of "fallback_candidates q tools"]
    have "t \<in> set (take (limit q) sorted_tools)
        \<or> (\<forall>x \<in> set (take (limit q) sorted_tools). fallback_before x t)"
      unfolding sorted_tools_def by (rule take_sorted_top)
    moreover have "set (take (limit q) sorted_tools) = Tool.truncate ` set res"
      using tr by (metis set_map)
    moreover have "fallback_before x t = fallback_before (Tool.truncate x) t" for x :: TrendingTool
      by (simp add: fallback_before_def Tool.defs)
    ultimately show "t \<in> Tool.truncate ` set res \<or> (\<forall>x \<in> set res. fallback_before x t)"
      by auto
  qed
  from tr have tr': "map Tool.truncate res =
         take (limit q) (sort_key (\<lambda>t. (- tool_totalScore t, - tool_downloadCount t))
                           (fallback_candidates q tools))"
    by (simp only: sorted_tools_def)
  show ?thesis
    by (intro exI [of _ res] conjI; fact)
qed

theorem trending_fallback_witness:
  "trendingQuerySchema top2 = Inr \<lparr> period = Day, limit = 2, category = None \<rparr>
   \<and> log_createdAt (view_at 0 ''low'') < threshold example_now Day
   \<and> ranking_of (GET_trending [] example_now top2 [view_at 0 ''low''] stored_scores_table)
       = Inr [(''high'', JsNumber 90, JsNumber 0), (''mid'', JsNumber 50, JsNumber 0)]
   \<and> (\<exists>res. GET_trending [] example_now top2 [view_at 0 ''low''] stored_scores_table = Inr res
         \<and> length res = 2 \<and> sorted_wrt fallback_before res)"
proof -
  have old: "\<forall>l \<in> set [view_at 0 ''low'']. log_createdAt l
      < threshold example_now (period \<lparr> period = Day, limit = 2, category = None \<rparr>)"
    by (simp add: view_at_fields example_thresholds)
  have "length (fallback_candidates \<lparr> period = Day, limit = 2, category = None \<rparr> stored_scores_table) = 3"
    by (simp add: fallback_candidates_def in_category_def stored_scores_table_def)
  with trending_fallback [OF top2_valid old, of "[]" stored_scores_table]
  have "\<exists>res. GET_trending [] example_now top2 [view_at 0 ''low''] stored_scores_table = Inr res
         \<and> length res = 2 \<and> sorted_wrt fallback_before res"
    by auto
  with old top2_valid fallback_example show ?thesis by simp
qed

text \<open>
  C8. The claim, that with usage in the window the \<open>trendingScore\<close> of each returned tool
  is its usage count plus its stored \<open>totalScore\<close> and that the result is sorted by it,
  is what the route sets out to compute. The route adds \<open>totalScore\<close> to the count as the
  driver delivers it, a string, and so concatenates: with usage \<open>A: 5\<close>, \<open>B: 1\<close> and stored
  scores \<open>A: 10\<close>, \<open>B: 50\<close> the scores are \<open>''510''\<close> and \<open>''150''\<close>, not 15 and 51, and \<open>A\<close>
  is ranked before \<open>B\<close>.
\<close>

theorem trending_score_concatenates:
  "ranking_of (GET_trending [] example_now top2 blend_logs blend_table)
     = Inr [(''A'', JsString ''510'', JsString ''5''), (''B'', JsString ''150'', JsString ''1'')]
   \<and> window_count example_now Day blend_logs ''A'' = 5
   \<and> window_count example_now Day blend_logs ''B'' = 1
   \<and> map (\<lambda>t. (tool_id t, tool_totalScore t)) blend_table = [(''A'', 10), (''B'', 50)]"
proof -
  have "window_count example_now Day blend_logs ''A'' = 5"
    and "window_count example_now Day blend_logs ''B'' = 1"
    by (simp_all add: window_count_def blend_logs_def view_at_fields example_thresholds)
  moreover have "map (\<lambda>t. (tool_id t, tool_totalScore t)) blend_table = [(''A'', 10), (''B'', 50)]"
    by (simp add: blend_table_def example_tool_fields)
  ultimately show ?thesis
    by (simp add: blend_example)
qed




end
